theory Spec2Isabelle
  imports Complex_Main "HOL-Library.Word"
begin

section \<open>Numbers, errors and configurations\<close>

text \<open>
  A C++ \<open>double\<close> is modelled in exact real arithmetic, extended by the one special value
  the sources test for with \<open>std::isinf\<close>: \<open>+infinity\<close>. Rounding, NaN and
  \<open>-infinity\<close> are outside the model.
\<close>

datatype xreal = Fin real | PInf

fun isinf :: "xreal \<Rightarrow> bool" where
  "isinf PInf = True"
| "isinf (Fin _) = False"

fun xless :: "xreal \<Rightarrow> xreal \<Rightarrow> bool" where
  "xless (Fin a) (Fin b) = (a < b)"
| "xless (Fin a) PInf = True"
| "xless PInf b = False"

definition xle :: "xreal \<Rightarrow> xreal \<Rightarrow> bool" where
  "xle a b = (\<not> xless b a)"

fun xadd :: "xreal \<Rightarrow> xreal \<Rightarrow> xreal" where
  "xadd (Fin a) (Fin b) = Fin (a + b)"
| "xadd PInf b = PInf"
| "xadd a PInf = PInf"

definition xmin :: "xreal \<Rightarrow> xreal \<Rightarrow> xreal" where
  \<comment> \<open>\<open>std::min(a, b)\<close> is \<open>(b < a) ? b : a\<close>\<close>
  "xmin a b = (if xless b a then b else a)"

text \<open>
  Everything that aborts the C++ program or leaves its behaviour undefined is a value of
  \<open>error\<close>: a failed \<open>assert\<close>, a thrown exception, a conversion of an out-of-range
  \<open>double\<close> to \<open>unsigned int\<close>, the top of an empty heap, a heap handle used after its
  element was popped, a pointer without an object behind it.
\<close>

datatype error =
    AssertionFailed
  | LogicError
  | RuntimeError
  | OutOfRange
  | BadConversion
  | EmptyHeap
  | DanglingHandle
  | NullPointer

type_synonym Config = "real list"

definition vsub :: "Config \<Rightarrow> Config \<Rightarrow> Config" where
  "vsub b a = map2 (\<lambda>bi ai. bi - ai) b a"

definition vnorm :: "Config \<Rightarrow> real" where
  \<comment> \<open>Eigen's \<open>norm()\<close>: the Euclidean norm\<close>
  "vnorm d = sqrt (sum_list (map (\<lambda>x. x * x) d))"

definition vdiv :: "Config \<Rightarrow> real \<Rightarrow> Config" where
  "vdiv d n = map (\<lambda>x. x / n) d"

definition vaxpy :: "real \<Rightarrow> Config \<Rightarrow> Config \<Rightarrow> Config" where
  \<comment> \<open>\<open>s * delta + avec\<close>\<close>
  "vaxpy s d a = map2 (\<lambda>di ai. s * di + ai) d a"

definition cSpaceDistance :: "Config \<Rightarrow> Config \<Rightarrow> real" where
  "cSpaceDistance a b = vnorm (vsub a b)"

section \<open>The state-space oracle\<close>

text \<open>
  \<open>StateSpace\<close> is an abstract class of the sources; its virtual methods are the fields
  of a record. Grasp and goal identifiers and roadmap node ids are \<open>unsigned int\<close>.
\<close>

type_synonym uint = "32 word"

record StateSpace =
  distance :: "Config \<Rightarrow> Config \<Rightarrow> real"
  isValid_base :: "Config \<Rightarrow> bool"
  isValid_grasp :: "Config \<Rightarrow> uint \<Rightarrow> bool"
  cost_base :: "Config \<Rightarrow> xreal"
  conditional_cost :: "Config \<Rightarrow> uint \<Rightarrow> xreal"

section \<open>Edge-cost integrators\<close>

subsection \<open>IntegralEdgeCostComputer\<close>

fun IECC_loop ::
  "(Config \<Rightarrow> xreal) \<Rightarrow> real \<Rightarrow> real \<Rightarrow> Config \<Rightarrow> Config \<Rightarrow> nat \<Rightarrow> real \<Rightarrow> real \<Rightarrow> xreal" where
  "IECC_loop cost_fn h nrm delta avec 0 progress integral_cost = Fin integral_cost"
| "IECC_loop cost_fn h nrm delta avec (Suc n) progress integral_cost =
     (let q = vaxpy progress delta avec;
          step_size = min h (nrm - progress)
      in case cost_fn q of
           PInf \<Rightarrow> PInf
         | Fin dc \<Rightarrow>
             IECC_loop cost_fn h nrm delta avec n (progress + step_size)
               (integral_cost + dc * step_size))"

definition num_steps_of :: "real \<Rightarrow> real \<Rightarrow> error + nat" where
  \<comment> \<open>\<open>unsigned int num_steps = std::ceil(norm / step)\<close>: the conversion is undefined
      unless the value fits; a step of zero divides to infinity\<close>
  "num_steps_of nrm h =
     (if h = 0 \<or> \<lceil>nrm / h\<rceil> < 0 \<or> 2 ^ 32 \<le> \<lceil>nrm / h\<rceil> then Inl BadConversion
      else Inr (nat \<lceil>nrm / h\<rceil>))"

definition IECC_integrateCosts ::
  "real \<Rightarrow> (Config \<Rightarrow> xreal) \<Rightarrow> Config \<Rightarrow> Config \<Rightarrow> error + xreal" where
  "IECC_integrateCosts step cost_fn a b =
     (if length a \<noteq> length b then Inl AssertionFailed
      else let delta = vsub b a; nrm = vnorm delta
           in if nrm = 0 then Inr (Fin 0)
              else case num_steps_of nrm step of
                     Inl e \<Rightarrow> Inl e
                   | Inr n \<Rightarrow> Inr (IECC_loop cost_fn step nrm (vdiv delta nrm) a n 0 0))"

definition IECC_lowerBound :: "StateSpace \<Rightarrow> Config \<Rightarrow> Config \<Rightarrow> real" where
  "IECC_lowerBound ss a b = distance ss a b"

definition IECC_cost :: "StateSpace \<Rightarrow> real \<Rightarrow> Config \<Rightarrow> Config \<Rightarrow> error + xreal" where
  "IECC_cost ss step a b = IECC_integrateCosts step (cost_base ss) a b"

definition IECC_cost_grasp ::
  "StateSpace \<Rightarrow> real \<Rightarrow> Config \<Rightarrow> Config \<Rightarrow> uint \<Rightarrow> error + xreal" where
  "IECC_cost_grasp ss step a b grasp_id =
     IECC_integrateCosts step (\<lambda>q. conditional_cost ss q grasp_id) a b"

subsection \<open>ORSceneInterface\<close>

text \<open>
  The collision engine behind \<open>ORSceneInterface\<close> is external: what \<open>costPerConfig\<close>
  reads from it is a self-collision test and the minimal distance of the collision report.
\<close>

record ORScene =
  CheckSelfCollision :: "Config \<Rightarrow> bool"
  minDistance :: "Config \<Rightarrow> real"

definition STEP_SIZE :: real where
  "STEP_SIZE = 1 / 1000"

definition costPerConfig :: "ORScene \<Rightarrow> Config \<Rightarrow> xreal" where
  \<comment> \<open>\<open>1.0 / clearance\<close> is \<open>+infinity\<close> at clearance zero\<close>
  "costPerConfig scene c =
     (if CheckSelfCollision scene c then PInf
      else let clearance = minDistance scene c
           in if clearance = 0 then PInf else Fin (1 / clearance))"

fun OR_loop :: "ORScene \<Rightarrow> real \<Rightarrow> Config \<Rightarrow> Config \<Rightarrow> nat \<Rightarrow> nat \<Rightarrow> real \<Rightarrow> xreal" where
  "OR_loop scene nrm delta avec 0 t integral_cost = Fin integral_cost"
| "OR_loop scene nrm delta avec (Suc n) t integral_cost =
     (let q = vaxpy (min (real t * STEP_SIZE / nrm) 1) delta avec
      in case costPerConfig scene q of
           PInf \<Rightarrow> PInf
         | Fin dc \<Rightarrow> OR_loop scene nrm delta avec n (Suc t) (integral_cost + dc * STEP_SIZE))"

definition OR_integrateCosts :: "ORScene \<Rightarrow> Config \<Rightarrow> Config \<Rightarrow> error + xreal" where
  "OR_integrateCosts scene a b =
     (if length a \<noteq> length b then Inl AssertionFailed
      else let delta = vsub b a; nrm = vnorm delta
           in if nrm = 0 then Inr (Fin 0)
              else case num_steps_of nrm STEP_SIZE of
                     Inl e \<Rightarrow> Inl e
                   | Inr n \<Rightarrow> Inr (OR_loop scene nrm delta a n 0 0))"

definition OR_lowerBound :: "Config \<Rightarrow> Config \<Rightarrow> real" where
  "OR_lowerBound a b = cSpaceDistance a b"

definition unit_scene :: ORScene where
  \<comment> \<open>a scene without self-collision whose clearance is 1 everywhere: point cost 1\<close>
  "unit_scene = \<lparr> CheckSelfCollision = (\<lambda>c. False), minDistance = (\<lambda>c. 1) \<rparr>"

section \<open>The roadmap\<close>

text \<open>
  Nodes and edges are shared objects (\<open>std::shared_ptr\<close>): an edge is one object reachable
  from the adjacency maps of both of its endpoints. The model therefore keeps an explicit
  store of node objects and one of edge objects; a \<open>NodePtr\<close> or \<open>EdgePtr\<close> is an address
  into it. An address without an object stands for a null or expired pointer. The trace
  logger only writes to files and is left out.
\<close>

type_synonym addr = nat

record Edge =
  base_cost :: xreal
  base_evaluated :: bool
  conditional_costs :: "uint \<rightharpoonup> xreal"
  node_a :: addr
  node_b :: addr

definition new_Edge :: "addr \<Rightarrow> addr \<Rightarrow> real \<Rightarrow> Edge" where
  "new_Edge a b bc =
     \<lparr> base_cost = Fin bc, base_evaluated = False, conditional_costs = Map.empty,
       node_a = a, node_b = b \<rparr>"

record Node =
  uid :: uint
  config :: Config
  initialized :: bool
  conditional_validity :: "uint \<rightharpoonup> bool"
  edges :: "(uint \<times> addr) list"
  densification_gen :: uint

definition new_Node :: "uint \<Rightarrow> Config \<Rightarrow> Node" where
  \<comment> \<open>Modelled from the spec: the constructor \<open>Node(uid, config)\<close> is declared in
      MultiGraspRoadmap.h, which is not among the sources; a node is born not initialized,
      without cached validity or edges, and before the first densification generation.\<close>
  "new_Node i c =
     \<lparr> uid = i, config = c, initialized = False, conditional_validity = Map.empty,
       edges = [], densification_gen = 0 \<rparr>"

text \<open>\<open>std::map::insert\<close> keeps an existing entry; \<open>erase\<close> removes the entry of a key.\<close>

definition map_insert :: "'k \<Rightarrow> 'v \<Rightarrow> ('k \<times> 'v) list \<Rightarrow> ('k \<times> 'v) list" where
  "map_insert k v m = (if map_of m k = None then m @ [(k, v)] else m)"

definition map_erase :: "'k \<Rightarrow> ('k \<times> 'v) list \<Rightarrow> ('k \<times> 'v) list" where
  "map_erase k m = filter (\<lambda>kv. fst kv \<noteq> k) m"

record EdgeCostComputer =
  lowerBound :: "Config \<Rightarrow> Config \<Rightarrow> real"
  cost :: "Config \<Rightarrow> Config \<Rightarrow> error + xreal"
  cost_grasp :: "Config \<Rightarrow> Config \<Rightarrow> uint \<Rightarrow> error + xreal"

definition IntegralEdgeCostComputer :: "StateSpace \<Rightarrow> real \<Rightarrow> EdgeCostComputer" where
  "IntegralEdgeCostComputer ss step =
     \<lparr> lowerBound = IECC_lowerBound ss, cost = IECC_cost ss step,
       cost_grasp = IECC_cost_grasp ss step \<rparr>"

record Roadmap =
  node_mem :: "addr \<rightharpoonup> Node"
  edge_mem :: "addr \<rightharpoonup> Edge"
  next_node_addr :: addr
  next_edge_addr :: addr
  rm_nodes :: "uint \<rightharpoonup> addr"
  rm_nn :: "addr list"
  rm_node_id_counter :: uint
  rm_densification_gen :: uint
  rm_gamma_prm :: real
  rm_dimension :: nat

definition getNode :: "Roadmap \<Rightarrow> uint \<Rightarrow> error + addr option" where
  "getNode rm node_id =
     (case rm_nodes rm node_id of
        None \<Rightarrow> Inr None
      | Some a \<Rightarrow> (case node_mem rm a of None \<Rightarrow> Inl AssertionFailed | Some n \<Rightarrow> Inr (Some a)))"

definition addNode :: "Roadmap \<Rightarrow> Config \<Rightarrow> addr \<times> Roadmap" where
  "addNode rm c =
     (let a = next_node_addr rm; i = rm_node_id_counter rm
      in (a, rm\<lparr> node_mem := (node_mem rm)(a \<mapsto> new_Node i c),
                 next_node_addr := Suc a,
                 rm_node_id_counter := i + 1,
                 rm_nn := rm_nn rm @ [a],
                 rm_nodes := (if rm_nodes rm i = None then (rm_nodes rm)(i \<mapsto> a)
                              else rm_nodes rm) \<rparr>))"

record SpaceInformation =
  dimension :: nat
  lower :: "real list"
  upper :: "real list"

definition scaleToLimits :: "SpaceInformation \<Rightarrow> Config \<Rightarrow> Config" where
  "scaleToLimits si c = map (\<lambda>(ci, (u, l)). ci * (u - l) + l) (zip c (zip (upper si) (lower si)))"

definition densify :: "SpaceInformation \<Rightarrow> Roadmap \<Rightarrow> Config list \<Rightarrow> error + Roadmap" where
  \<comment> \<open>the Halton sequence is a library: \<open>new_samples\<close> are the points it returns for this
      batch, one for each of the \<open>batch_size\<close> nodes\<close>
  "densify si rm new_samples =
     (if new_samples = [] then Inl AssertionFailed
      else Inr ((fold (\<lambda>c r. snd (addNode r (scaleToLimits si c))) new_samples rm)
                  \<lparr> rm_densification_gen := rm_densification_gen rm + 1 \<rparr>))"

definition dead :: "Roadmap \<Rightarrow> addr \<Rightarrow> bool" where
  "dead rm e =
     (case edge_mem rm e of None \<Rightarrow> False
      | Some ed \<Rightarrow> base_evaluated ed \<and> isinf (base_cost ed))"

definition nearestR :: "StateSpace \<Rightarrow> Roadmap \<Rightarrow> Node \<Rightarrow> real \<Rightarrow> addr list" where
  \<comment> \<open>the nearest-neighbour index is a library: all stored nodes within distance \<open>r\<close>\<close>
  "nearestR ss rm node r =
     filter (\<lambda>a. case node_mem rm a of None \<Rightarrow> False
                 | Some m \<Rightarrow> distance ss (config node) (config m) \<le> r) (rm_nn rm)"

definition connect :: "EdgeCostComputer \<Rightarrow> addr \<Rightarrow> addr \<Rightarrow> Roadmap \<Rightarrow> Roadmap" where
  \<comment> \<open>the body of the loop over the neighbours in \<open>updateAdjacency\<close>\<close>
  "connect ecc a na rm =
     (case node_mem rm a of None \<Rightarrow> rm
      | Some node \<Rightarrow>
     (case node_mem rm na of None \<Rightarrow> rm
      | Some neigh \<Rightarrow>
          if map_of (edges node) (uid neigh) = None \<and> na \<noteq> a then
            let bc = lowerBound ecc (config node) (config neigh);
                e = next_edge_addr rm;
                node' = node\<lparr> edges := map_insert (uid neigh) e (edges node) \<rparr>;
                neigh' = neigh\<lparr> edges := map_insert (uid node) e (edges neigh) \<rparr>
            in rm\<lparr> edge_mem := (edge_mem rm)(e \<mapsto> new_Edge a na bc),
                    next_edge_addr := Suc e,
                    node_mem := (node_mem rm)(a \<mapsto> node', na \<mapsto> neigh') \<rparr>
          else rm))"

definition prune :: "Roadmap \<Rightarrow> addr \<Rightarrow> Roadmap" where
  \<comment> \<open>the clean-up loop of \<open>updateAdjacency\<close>: it erases from \<open>node->edges\<close> only\<close>
  "prune rm a =
     (case node_mem rm a of None \<Rightarrow> rm
      | Some node \<Rightarrow>
          rm\<lparr> node_mem := (node_mem rm)
                (a \<mapsto> node\<lparr> edges := filter (\<lambda>ke. \<not> dead rm (snd ke)) (edges node) \<rparr>) \<rparr>)"

definition updateAdjacency ::
  "StateSpace \<Rightarrow> EdgeCostComputer \<Rightarrow> Roadmap \<Rightarrow> addr \<Rightarrow> error + Roadmap" where
  "updateAdjacency ss ecc rm a =
     (case node_mem rm a of None \<Rightarrow> Inl AssertionFailed
      | Some node \<Rightarrow>
          if densification_gen node \<noteq> rm_densification_gen rm then
            let n = real (length (rm_nn rm));
                r = rm_gamma_prm rm * (ln n / n) powr (1 / real (rm_dimension rm));
                neighbors = nearestR ss rm node r;
                rm1 = fold (connect ecc a) neighbors rm;
                rm2 = (case node_mem rm1 a of None \<Rightarrow> rm1
                       | Some node1 \<Rightarrow>
                           rm1\<lparr> node_mem := (node_mem rm1)
                             (a \<mapsto> node1\<lparr> densification_gen := rm_densification_gen rm \<rparr>) \<rparr>)
            in Inr (prune rm2 a)
          else Inr (prune rm a))"

definition kill_edge :: "addr \<Rightarrow> Roadmap \<Rightarrow> Roadmap" where
  "kill_edge e rm =
     (case edge_mem rm e of None \<Rightarrow> rm
      | Some ed \<Rightarrow>
          rm\<lparr> edge_mem := (edge_mem rm)(e \<mapsto> ed\<lparr> base_evaluated := True, base_cost := PInf \<rparr>) \<rparr>)"

definition deleteNode :: "Roadmap \<Rightarrow> addr \<Rightarrow> error + Roadmap" where
  "deleteNode rm a =
     (case node_mem rm a of None \<Rightarrow> Inl AssertionFailed
      | Some node \<Rightarrow>
          (case rm_nodes rm (uid node) of None \<Rightarrow> Inl AssertionFailed
           | Some x \<Rightarrow>
               Inr (fold kill_edge (map snd (edges node))
                     (rm\<lparr> rm_nn := removeAll a (rm_nn rm),
                          rm_nodes := (rm_nodes rm)(uid node := None) \<rparr>))))"

definition isValid :: "StateSpace \<Rightarrow> Roadmap \<Rightarrow> addr \<Rightarrow> error + bool \<times> Roadmap" where
  "isValid ss rm a =
     (case node_mem rm a of None \<Rightarrow> Inr (False, rm)
      | Some node \<Rightarrow>
          let ok = Inr (True, rm\<lparr> node_mem := (node_mem rm)(a \<mapsto> node\<lparr> initialized := True \<rparr>) \<rparr>)
          in if \<not> initialized node then
               let valid = isValid_base ss (config node)
               in if \<not> valid then
                    (case deleteNode rm a of Inl e \<Rightarrow> Inl e | Inr rm' \<Rightarrow> Inr (False, rm'))
                  else ok
             else ok)"

definition isValid_for_grasp ::
  "StateSpace \<Rightarrow> Roadmap \<Rightarrow> addr \<Rightarrow> uint \<Rightarrow> error + bool \<times> Roadmap" where
  "isValid_for_grasp ss rm a grasp_id =
     (case isValid ss rm a of Inl e \<Rightarrow> Inl e
      | Inr (base_valid, rm1) \<Rightarrow>
          if base_valid then
            (case node_mem rm1 a of None \<Rightarrow> Inl AssertionFailed
             | Some node \<Rightarrow>
                 (case conditional_validity node grasp_id of
                    None \<Rightarrow>
                      let valid = isValid_grasp ss (config node) grasp_id
                      in Inr (valid, rm1\<lparr> node_mem := (node_mem rm1)
                           (a \<mapsto> node\<lparr> conditional_validity :=
                                 (conditional_validity node)(grasp_id \<mapsto> valid) \<rparr>) \<rparr>)
                  | Some v \<Rightarrow> Inr (v, rm1)))
          else Inr (False, rm1))"

definition computeCost ::
  "EdgeCostComputer \<Rightarrow> Roadmap \<Rightarrow> addr \<Rightarrow> error + (bool \<times> xreal) \<times> Roadmap" where
  "computeCost ecc rm e =
     (case edge_mem rm e of None \<Rightarrow> Inl AssertionFailed
      | Some edge \<Rightarrow>
          if base_evaluated edge then Inr ((\<not> isinf (base_cost edge), base_cost edge), rm)
          else
            (case node_mem rm (node_a edge) of None \<Rightarrow> Inl AssertionFailed
             | Some na \<Rightarrow>
            (case node_mem rm (node_b edge) of None \<Rightarrow> Inl AssertionFailed
             | Some nb \<Rightarrow>
            (case cost ecc (config na) (config nb) of Inl err \<Rightarrow> Inl err
             | Inr c \<Rightarrow>
                 Inr ((\<not> isinf c, c),
                      rm\<lparr> edge_mem := (edge_mem rm)
                            (e \<mapsto> edge\<lparr> base_cost := c, base_evaluated := True \<rparr>) \<rparr>)))))"

definition computeCost_weak ::
  "EdgeCostComputer \<Rightarrow> Roadmap \<Rightarrow> addr \<Rightarrow> error + (bool \<times> xreal) \<times> Roadmap" where
  "computeCost_weak ecc rm e =
     (if edge_mem rm e = None then Inr ((False, PInf), rm) else computeCost ecc rm e)"

definition computeCost_grasp ::
  "EdgeCostComputer \<Rightarrow> Roadmap \<Rightarrow> addr \<Rightarrow> uint \<Rightarrow> error + (bool \<times> xreal) \<times> Roadmap" where
  "computeCost_grasp ecc rm e grasp_id =
     (case edge_mem rm e of None \<Rightarrow> Inl AssertionFailed
      | Some edge \<Rightarrow>
          if base_evaluated edge \<and> isinf (base_cost edge) then Inr ((False, base_cost edge), rm)
          else
            (case conditional_costs edge grasp_id of
               Some c \<Rightarrow> Inr ((\<not> isinf c, c), rm)
             | None \<Rightarrow>
            (case node_mem rm (node_a edge) of None \<Rightarrow> Inl AssertionFailed
             | Some na \<Rightarrow>
            (case node_mem rm (node_b edge) of None \<Rightarrow> Inl AssertionFailed
             | Some nb \<Rightarrow>
            (case cost_grasp ecc (config na) (config nb) grasp_id of Inl err \<Rightarrow> Inl err
             | Inr c \<Rightarrow>
                 Inr ((\<not> isinf c, c),
                      rm\<lparr> edge_mem := (edge_mem rm)
                            (e \<mapsto> edge\<lparr> conditional_costs :=
                                   (conditional_costs edge)(grasp_id \<mapsto> c) \<rparr>) \<rparr>))))))"

definition edge_admissible :: "EdgeCostComputer \<Rightarrow> Roadmap \<Rightarrow> addr \<Rightarrow> bool" where
  \<comment> \<open>invariant (I1) for the edge at address \<open>e\<close>\<close>
  "edge_admissible ecc rm e =
     (case edge_mem rm e of None \<Rightarrow> False
      | Some edge \<Rightarrow>
     (case node_mem rm (node_a edge) of None \<Rightarrow> False
      | Some na \<Rightarrow>
     (case node_mem rm (node_b edge) of None \<Rightarrow> False
      | Some nb \<Rightarrow> xle (Fin (lowerBound ecc (config na) (config nb))) (base_cost edge))))"

section \<open>Grasps, goals and the goal set\<close>

record Grasp =
  grasp_ident :: uint
  pos :: "real list"
  quat :: "real list"
  gripper_values :: "real list"

definition addGrasp :: "(uint \<rightharpoonup> Grasp) \<Rightarrow> Grasp \<Rightarrow> error + (uint \<rightharpoonup> Grasp)" where
  \<comment> \<open>\<open>ORSceneInterface::addGrasp\<close> on the member \<open>_grasps\<close>\<close>
  "addGrasp grasps g =
     (if grasps (grasp_ident g) \<noteq> None then Inl LogicError
      else Inr (grasps(grasp_ident g \<mapsto> g)))"

record Goal =
  goal_ident :: uint
  goal_config :: Config
  grasp_id :: uint
  quality :: real

record MultiGraspGoalSet =
  gs_goals :: "(uint \<times> Goal) list"
  gs_goal_id_to_roadmap_id :: "uint \<rightharpoonup> uint"
  gs_roadmap_id_to_goal_id :: "uint \<rightharpoonup> uint"

definition new_MultiGraspGoalSet :: MultiGraspGoalSet where
  "new_MultiGraspGoalSet =
     \<lparr> gs_goals = [], gs_goal_id_to_roadmap_id = Map.empty,
       gs_roadmap_id_to_goal_id = Map.empty \<rparr>"

text \<open>
  The goal set holds a pointer to the roadmap; its operations take and return the roadmap
  next to the goal set.
\<close>

definition addGoal ::
  "MultiGraspGoalSet \<times> Roadmap \<Rightarrow> Goal \<Rightarrow> error + MultiGraspGoalSet \<times> Roadmap" where
  "addGoal s goal =
     (let gs = fst s; rm = snd s;
          goals' = map_insert (goal_ident goal) goal (gs_goals gs);
          (a, rm') = addNode rm (goal_config goal)
      in case node_mem rm' a of None \<Rightarrow> Inl AssertionFailed
         | Some new_node \<Rightarrow>
             Inr (\<lparr> gs_goals = goals',
                    gs_goal_id_to_roadmap_id =
                      (gs_goal_id_to_roadmap_id gs)(goal_ident goal \<mapsto> uid new_node),
                    gs_roadmap_id_to_goal_id =
                      (gs_roadmap_id_to_goal_id gs)(uid new_node \<mapsto> goal_ident goal) \<rparr>,
                  rm'))"

definition getGoal :: "MultiGraspGoalSet \<Rightarrow> uint \<Rightarrow> error + Goal" where
  "getGoal gs gid = (case map_of (gs_goals gs) gid of None \<Rightarrow> Inl LogicError | Some g \<Rightarrow> Inr g)"

definition removeGoal :: "MultiGraspGoalSet \<Rightarrow> uint \<Rightarrow> error + MultiGraspGoalSet" where
  "removeGoal gs gid =
     (case map_of (gs_goals gs) gid of None \<Rightarrow> Inr gs
      | Some g \<Rightarrow>
     (case gs_goal_id_to_roadmap_id gs gid of None \<Rightarrow> Inl AssertionFailed
      | Some rid \<Rightarrow>
     (case gs_roadmap_id_to_goal_id gs rid of None \<Rightarrow> Inl AssertionFailed
      | Some gid' \<Rightarrow>
          if gid' \<noteq> gid then Inl AssertionFailed
          else Inr \<lparr> gs_goals = map_erase gid (gs_goals gs),
                     gs_goal_id_to_roadmap_id = (gs_goal_id_to_roadmap_id gs)(gid := None),
                     gs_roadmap_id_to_goal_id = (gs_roadmap_id_to_goal_id gs)(rid := None) \<rparr>)))"

fun removeGoals :: "MultiGraspGoalSet \<Rightarrow> uint list \<Rightarrow> error + MultiGraspGoalSet" where
  "removeGoals gs [] = Inr gs"
| "removeGoals gs (gid # goal_ids) =
     (case removeGoal gs gid of Inl e \<Rightarrow> Inl e | Inr gs' \<Rightarrow> removeGoals gs' goal_ids)"

definition isGoal ::
  "StateSpace \<Rightarrow> MultiGraspGoalSet \<times> Roadmap \<Rightarrow> addr \<Rightarrow> uint \<Rightarrow> error + bool \<times> Roadmap" where
  "isGoal ss s a gid =
     (let gs = fst s; rm = snd s
      in case isValid_for_grasp ss rm a gid of Inl e \<Rightarrow> Inl e
         | Inr (valid, rm') \<Rightarrow>
             if \<not> valid then Inr (False, rm')
             else
               (case node_mem rm' a of None \<Rightarrow> Inl AssertionFailed
                | Some node \<Rightarrow>
               (case gs_roadmap_id_to_goal_id gs (uid node) of None \<Rightarrow> Inr (False, rm')
                | Some goal_id \<Rightarrow>
               (case map_of (gs_goals gs) goal_id of None \<Rightarrow> Inl OutOfRange
                | Some g \<Rightarrow> Inr (gid = grasp_id g, rm')))))"

definition isGoal_by_id ::
  "StateSpace \<Rightarrow> MultiGraspGoalSet \<times> Roadmap \<Rightarrow> uint \<Rightarrow> uint \<Rightarrow> error + bool \<times> Roadmap" where
  "isGoal_by_id ss s node_id gid =
     (case getNode (snd s) node_id of Inl e \<Rightarrow> Inl e
      | Inr None \<Rightarrow> Inr (False, snd s)
      | Inr (Some a) \<Rightarrow> isGoal ss s a gid)"

definition getGoalId :: "MultiGraspGoalSet \<Rightarrow> uint \<Rightarrow> uint \<Rightarrow> error + uint \<times> bool" where
  "getGoalId gs node_id gid =
     (case gs_roadmap_id_to_goal_id gs node_id of None \<Rightarrow> Inr (0, False)
      | Some goal_id \<Rightarrow>
          (case map_of (gs_goals gs) goal_id of None \<Rightarrow> Inl OutOfRange
           | Some g \<Rightarrow> Inr (goal_id, grasp_id g = gid)))"

definition getGoals :: "MultiGraspGoalSet \<Rightarrow> Goal list" where
  "getGoals gs = map snd (gs_goals gs)"

section \<open>The goal heuristic\<close>

record GoalDistanceFn =
  scaled_lambda :: real
  path_cost_fn :: "Config \<Rightarrow> Config \<Rightarrow> real"

definition distance_const :: "GoalDistanceFn \<Rightarrow> Goal \<Rightarrow> Goal \<Rightarrow> real" where
  \<comment> \<open>Modelled from the spec: \<open>GoalDistanceFn::distance\<close> and \<open>distance_const\<close> are defined
      in MultiGraspRoadmap.h, which is not among the sources; the goal distance between a
      goal and a query is the path-cost lower bound between their configurations plus the
      scaled difference of their qualities.\<close>
  "distance_const gd g a =
     path_cost_fn gd (goal_config a) (goal_config g) + scaled_lambda gd * (quality a - quality g)"

text \<open>
  The nearest-neighbour structures are a library (OMPL's GNAT); what the heuristic uses of
  them is \<open>add\<close>, \<open>size\<close> and \<open>nearest\<close>. A structure is the list of its elements and
  \<open>nearest\<close> returns the first element of least distance to the query.
\<close>

fun nearest :: "('a \<Rightarrow> real) \<Rightarrow> 'a \<Rightarrow> 'a list \<Rightarrow> 'a" where
  "nearest d best [] = best"
| "nearest d best (x # xs) = nearest d (if d x < d best then x else best) xs"

text \<open>
  Whether goals added to or removed from a goal set reach a heuristic object built from it
  is a question of which objects share storage, so the goal set, its roadmap, the heuristic
  object and the nearest-neighbour structures it holds through \<open>std::shared_ptr\<close> are
  objects of one store, and a pointer to any of them is an address of that store. The
  goal set holds a pointer to its roadmap. \<open>_all_goals\<close> is a member of the heuristic
  object; \<open>_goals\<close> maps a grasp id to a pointer to a structure of its own.
\<close>

record MGGoalDistance =
  all_goals :: "Goal list"
  goals_of_grasp :: "(uint \<times> addr) list"
  quality_normalizer :: real
  goal_distance :: GoalDistanceFn
  max_quality :: "real option"

datatype object =
    GoalSetObj MultiGraspGoalSet addr
  | RoadmapObj Roadmap
  | GnatObj "Goal list"
  | GoalDistanceObj MGGoalDistance

record Heap =
  objects :: "addr \<rightharpoonup> object"
  next_free :: addr

definition heap_addGoal :: "Heap \<Rightarrow> addr \<Rightarrow> Goal \<Rightarrow> error + Heap" where
  \<comment> \<open>\<open>goal_set->addGoal(goal)\<close>\<close>
  "heap_addGoal H goal_set goal =
     (case objects H goal_set of
        Some (GoalSetObj gs roadmap) \<Rightarrow>
          (case objects H roadmap of
             Some (RoadmapObj rm) \<Rightarrow>
               (case addGoal (gs, rm) goal of Inl e \<Rightarrow> Inl e
                | Inr (gs', rm') \<Rightarrow>
                    Inr (H\<lparr> objects := (objects H)
                           (roadmap \<mapsto> RoadmapObj rm', goal_set \<mapsto> GoalSetObj gs' roadmap) \<rparr>))
           | _ \<Rightarrow> Inl NullPointer)
      | _ \<Rightarrow> Inl NullPointer)"

definition heap_removeGoal :: "Heap \<Rightarrow> addr \<Rightarrow> uint \<Rightarrow> error + Heap" where
  \<comment> \<open>\<open>goal_set->removeGoal(gid)\<close>\<close>
  "heap_removeGoal H goal_set gid =
     (case objects H goal_set of
        Some (GoalSetObj gs roadmap) \<Rightarrow>
          (case removeGoal gs gid of Inl e \<Rightarrow> Inl e
           | Inr gs' \<Rightarrow> Inr (H\<lparr> objects := (objects H)(goal_set \<mapsto> GoalSetObj gs' roadmap) \<rparr>))
      | _ \<Rightarrow> Inl NullPointer)"

datatype goal_op = AddGoal Goal | RemoveGoal uint

definition apply_goal_op :: "Heap \<Rightarrow> addr \<Rightarrow> goal_op \<Rightarrow> error + Heap" where
  "apply_goal_op H goal_set op =
     (case op of
        AddGoal g \<Rightarrow> heap_addGoal H goal_set g
      | RemoveGoal gid \<Rightarrow> heap_removeGoal H goal_set gid)"

fun apply_goal_ops :: "Heap \<Rightarrow> addr \<Rightarrow> goal_op list \<Rightarrow> error + Heap" where
  "apply_goal_ops H goal_set [] = Inr H"
| "apply_goal_ops H goal_set (op # ops) =
     (case apply_goal_op H goal_set op of Inl e \<Rightarrow> Inl e
      | Inr H' \<Rightarrow> apply_goal_ops H' goal_set ops)"

text \<open>
  \<open>max_q\<close> starts at \<open>-infinity\<close> and \<open>min_q\<close> at \<open>+infinity\<close>; \<open>None\<close> is that start value,
  which survives only for an empty goal set. The arithmetic on it is outside the model:
  there the normalizer and the scaled weight are given the value 0 and \<open>getGoalCost\<close> has
  no result.
\<close>

definition fold_quality :: "(real \<Rightarrow> real \<Rightarrow> real) \<Rightarrow> Goal list \<Rightarrow> real option" where
  "fold_quality f goals =
     fold (\<lambda>g acc. case acc of None \<Rightarrow> Some (quality g) | Some m \<Rightarrow> Some (f m (quality g)))
       goals None"

text \<open>
  The second loop of the constructor. \<open>_all_goals.add(goal)\<close> and \<open>add(goal)\<close> on a
  structure of \<open>_goals\<close> store a copy of the goal; \<open>std::make_shared\<close> takes the next free
  address of the store.
\<close>

fun add_goals :: "Goal list \<Rightarrow> MGGoalDistance \<Rightarrow> Heap \<Rightarrow> error + MGGoalDistance \<times> Heap" where
  "add_goals [] h H = Inr (h, H)"
| "add_goals (goal # goals) h H =
     (let h1 = h\<lparr> all_goals := all_goals h @ [goal] \<rparr>
      in case map_of (goals_of_grasp h1) (grasp_id goal) of
           None \<Rightarrow>
             (let new_gnat = next_free H
              in add_goals goals
                   (h1\<lparr> goals_of_grasp :=
                          map_insert (grasp_id goal) new_gnat (goals_of_grasp h1) \<rparr>)
                   (H\<lparr> objects := (objects H)(new_gnat \<mapsto> GnatObj [goal]),
                       next_free := Suc new_gnat \<rparr>))
         | Some a \<Rightarrow>
             (case objects H a of
                Some (GnatObj gnat) \<Rightarrow>
                  add_goals goals h1 (H\<lparr> objects := (objects H)(a \<mapsto> GnatObj (gnat @ [goal])) \<rparr>)
              | _ \<Rightarrow> Inl NullPointer))"

definition init_MGGoalDistance ::
  "Goal list \<Rightarrow> (Config \<Rightarrow> Config \<Rightarrow> real) \<Rightarrow> real \<Rightarrow> MGGoalDistance" where
  \<comment> \<open>the members as the constructor has set them when its second loop begins\<close>
  "init_MGGoalDistance goals pc lam =
     (let max_q = fold_quality max goals;
          min_q = fold_quality min goals;
          qn = (case (max_q, min_q) of (Some mx, Some mn) \<Rightarrow> mx - mn | _ \<Rightarrow> 0);
          qn' = (if qn = 0 then 1 else qn)
      in \<lparr> all_goals = [], goals_of_grasp = [], quality_normalizer = qn',
           goal_distance = \<lparr> scaled_lambda = (if max_q = None then 0 else lam / qn'),
                             path_cost_fn = pc \<rparr>,
           max_quality = max_q \<rparr>)"

definition new_MGGoalDistance ::
  "Heap \<Rightarrow> addr \<Rightarrow> (Config \<Rightarrow> Config \<Rightarrow> real) \<Rightarrow> real \<Rightarrow> error + addr \<times> Heap" where
  \<comment> \<open>the constructor; the new object gets the next free address, \<open>goals\<close> is the local
      vector that \<open>getGoals\<close> fills with copies\<close>
  "new_MGGoalDistance H goal_set pc lam =
     (case objects H goal_set of
        Some (GoalSetObj gs roadmap) \<Rightarrow>
          (let goals = getGoals gs;
               this = next_free H
           in case add_goals goals (init_MGGoalDistance goals pc lam)
                     (H\<lparr> next_free := Suc this \<rparr>) of
                Inl e \<Rightarrow> Inl e
              | Inr (h, H') \<Rightarrow>
                  Inr (this, H'\<lparr> objects := (objects H')(this \<mapsto> GoalDistanceObj h) \<rparr>))
      | _ \<Rightarrow> Inl NullPointer)"

definition dummy_goal :: "MGGoalDistance \<Rightarrow> Config \<Rightarrow> Goal" where
  \<comment> \<open>the id and the grasp of the dummy goal are not set in the source and not read\<close>
  "dummy_goal h a =
     \<lparr> goal_ident = 0, goal_config = a, grasp_id = 0,
       quality = (case max_quality h of None \<Rightarrow> 0 | Some m \<Rightarrow> m) \<rparr>"

definition nearest_goal :: "MGGoalDistance \<Rightarrow> Goal list \<Rightarrow> Goal \<Rightarrow> error + real" where
  "nearest_goal h gnat q =
     (case gnat of [] \<Rightarrow> Inl LogicError
      | g # gs \<Rightarrow>
          let nn = nearest (\<lambda>x. distance_const (goal_distance h) x q) g gs
          in Inr (distance_const (goal_distance h) nn q))"

definition costToGo :: "Heap \<Rightarrow> addr \<Rightarrow> Config \<Rightarrow> error + real" where
  "costToGo H this a =
     (case objects H this of
        Some (GoalDistanceObj h) \<Rightarrow> nearest_goal h (all_goals h) (dummy_goal h a)
      | _ \<Rightarrow> Inl NullPointer)"

definition costToGo_grasp :: "Heap \<Rightarrow> addr \<Rightarrow> Config \<Rightarrow> uint \<Rightarrow> error + real" where
  "costToGo_grasp H this a gid =
     (case objects H this of
        Some (GoalDistanceObj h) \<Rightarrow>
          (case map_of (goals_of_grasp h) gid of
             None \<Rightarrow> Inl LogicError
           | Some g \<Rightarrow>
               (case objects H g of
                  Some (GnatObj gnat) \<Rightarrow> nearest_goal h gnat (dummy_goal h a)
                | _ \<Rightarrow> Inl NullPointer))
      | _ \<Rightarrow> Inl NullPointer)"

definition getGoalCost :: "Heap \<Rightarrow> addr \<Rightarrow> real \<Rightarrow> error + real option" where
  "getGoalCost H this q =
     (case objects H this of
        Some (GoalDistanceObj h) \<Rightarrow>
          Inr (case max_quality h of None \<Rightarrow> None
               | Some m \<Rightarrow> Some (scaled_lambda (goal_distance h) * (m - q)))
      | _ \<Rightarrow> Inl NullPointer)"

text \<open>What the constructor establishes, as predicates on the store.\<close>

definition gnats_hold :: "MGGoalDistance \<Rightarrow> Heap \<Rightarrow> Goal list \<Rightarrow> bool" where
  \<comment> \<open>every structure of \<open>_goals\<close> holds, in their order, the goals of \<open>goals\<close> that have
      its grasp\<close>
  "gnats_hold h H goals =
     (\<forall>g a. map_of (goals_of_grasp h) g = Some a
        \<longrightarrow> objects H a = Some (GnatObj (filter (\<lambda>x. grasp_id x = g) goals)))"

definition gnats_fresh :: "MGGoalDistance \<Rightarrow> Heap \<Rightarrow> Goal list \<Rightarrow> addr \<Rightarrow> bool" where
  \<comment> \<open>the loop invariant of the constructor: the structures of \<open>_goals\<close> were allocated from
      \<open>n\<close> on, one for each grasp of the goals added so far\<close>
  "gnats_fresh h H goals n =
     (all_goals h = goals \<and> gnats_hold h H goals \<and> n \<le> next_free H
      \<and> (\<forall>g a. map_of (goals_of_grasp h) g = Some a \<longrightarrow> n \<le> a \<and> a < next_free H)
      \<and> (\<forall>g g' a. map_of (goals_of_grasp h) g = Some a \<and> map_of (goals_of_grasp h) g' = Some a
            \<longrightarrow> g = g')
      \<and> (\<forall>x \<in> set goals. map_of (goals_of_grasp h) (grasp_id x) \<noteq> None))"

section \<open>Lifelong Planning A*\<close>

text \<open>
  The search is a template over a graph type \<open>G\<close> with the interface of Graphs.h; the
  graph is held by \<open>const\<close> reference and is modelled as a record of functions. The
  successor and predecessor ranges are lists. \<open>default_lazy\<close> is the default value of the
  third parameter of \<open>getEdgeCost\<close>, which \<open>handleCostDecrease\<close> leaves out.
\<close>

record Graph =
  getStartNode :: uint
  checkValidity :: "uint \<Rightarrow> bool"
  heuristic :: "uint \<Rightarrow> xreal"
  getSuccessors :: "uint \<Rightarrow> bool \<Rightarrow> uint list"
  getPredecessors :: "uint \<Rightarrow> bool \<Rightarrow> uint list"
  getEdgeCost :: "uint \<Rightarrow> uint \<Rightarrow> bool \<Rightarrow> xreal"
  default_lazy :: bool
  isGoalVertex :: "uint \<Rightarrow> bool"
  getGoalCostVertex :: "uint \<Rightarrow> xreal"

type_synonym Key = "xreal \<times> xreal"

definition key_less :: "Key \<Rightarrow> Key \<Rightarrow> bool" where
  \<comment> \<open>Modelled from the spec: \<open>operator<\<close> on keys is declared in LPAStar.h and defined
      in a file that is not among the sources; keys are ordered lexicographically.\<close>
  "key_less a b = (xless (fst a) (fst b) \<or> (\<not> xless (fst b) (fst a) \<and> xless (snd a) (snd b)))"

definition computeKey :: "xreal \<Rightarrow> xreal \<Rightarrow> xreal \<Rightarrow> Key" where
  "computeKey g h rhs = (let g_p = xmin g rhs in (xadd g_p h, g_p))"

record PQElement =
  el_v :: uint
  el_key :: Key

record VertexData =
  vd_v :: uint
  vd_g :: xreal
  vd_h :: xreal
  vd_rhs :: xreal
  vd_p :: uint
  vd_in_pq :: bool
  vd_pq_handle :: "nat option"

definition new_VertexData :: "uint \<Rightarrow> xreal \<Rightarrow> xreal \<Rightarrow> xreal \<Rightarrow> uint \<Rightarrow> VertexData" where
  "new_VertexData v g h rhs p =
     \<lparr> vd_v = v, vd_g = g, vd_h = h, vd_rhs = rhs, vd_p = p, vd_in_pq = False,
       vd_pq_handle = None \<rparr>"

record SearchResult =
  solved :: bool
  path :: "uint list"
  path_cost :: xreal
  goal_cost :: xreal
  goal_node :: uint

text \<open>
  The priority queue is a Fibonacci heap with handles (a library). It is modelled as the
  list of its elements, each under the handle that \<open>push\<close> returned for it; the top is
  the first element that no other element precedes in key order. \<open>decrease\<close> and
  \<open>increase\<close> only restore the heap order after a key was written through a handle, so
  writing the key is all they do here. Writing through the handle of an element that has
  left the heap, and \<open>top\<close> or \<open>pop\<close> on an empty heap, are errors.
\<close>

type_synonym PQ = "(nat \<times> PQElement) list"

fun pq_top_from :: "nat \<times> PQElement \<Rightarrow> PQ \<Rightarrow> nat \<times> PQElement" where
  "pq_top_from best [] = best"
| "pq_top_from best (x # xs) =
     pq_top_from (if key_less (el_key (snd x)) (el_key (snd best)) then x else best) xs"

definition pq_top :: "PQ \<Rightarrow> (nat \<times> PQElement) option" where
  "pq_top q = (case q of [] \<Rightarrow> None | x # xs \<Rightarrow> Some (pq_top_from x xs))"

definition pq_pop :: "PQ \<Rightarrow> error + PQ" where
  "pq_pop q =
     (case pq_top q of None \<Rightarrow> Inl EmptyHeap
      | Some t \<Rightarrow> Inr (filter (\<lambda>x. fst x \<noteq> fst t) q))"

definition pq_set_key :: "PQ \<Rightarrow> nat option \<Rightarrow> Key \<Rightarrow> error + PQ" where
  "pq_set_key q hdl k =
     (case hdl of None \<Rightarrow> Inl DanglingHandle
      | Some i \<Rightarrow>
          (case map_of q i of None \<Rightarrow> Inl DanglingHandle
           | Some el \<Rightarrow> Inr (map (\<lambda>x. if fst x = i then (i, (snd x)\<lparr> el_key := k \<rparr>) else x) q)))"

record LPAStarAlgorithm =
  lpa_pq :: PQ
  lpa_next_handle :: nat
  lpa_vertex_data :: "uint \<rightharpoonup> VertexData"
  lpa_result :: SearchResult
  lpa_goal_key :: Key
  lpa_lazy :: bool
  lpa_v_start :: uint

definition pq_push :: "LPAStarAlgorithm \<Rightarrow> PQElement \<Rightarrow> nat \<times> LPAStarAlgorithm" where
  "pq_push st el =
     (let i = lpa_next_handle st
      in (i, st\<lparr> lpa_pq := lpa_pq st @ [(i, el)], lpa_next_handle := Suc i \<rparr>))"

text \<open>
  The constructor initializes \<open>_result\<close> and \<open>_goal_key\<close> only inside the test of the
  start node's validity. \<open>SearchResult\<close> has no constructor, so without that
  initialization its scalar members hold whatever the memory held: the parameter
  \<open>junk\<close>. The path is an empty vector and the key pair is (0, 0) by their own default
  constructors.
\<close>

definition new_LPAStarAlgorithm :: "Graph \<Rightarrow> bool \<Rightarrow> SearchResult \<Rightarrow> LPAStarAlgorithm" where
  "new_LPAStarAlgorithm G lazy junk =
     (let v_start = getStartNode G;
          st0 = \<lparr> lpa_pq = [], lpa_next_handle = 0, lpa_vertex_data = Map.empty,
                  lpa_result = junk\<lparr> path := [] \<rparr>, lpa_goal_key = (Fin 0, Fin 0),
                  lpa_lazy = lazy, lpa_v_start = v_start \<rparr>
      in if checkValidity G v_start then
           let start_node = new_VertexData v_start (Fin 0) (heuristic G v_start) (Fin 0) v_start;
               (i, st1) = pq_push st0
                  \<lparr> el_v = v_start,
                    el_key = computeKey (vd_g start_node) (vd_h start_node) (vd_rhs start_node) \<rparr>
           in st1\<lparr> lpa_vertex_data := [v_start \<mapsto> start_node\<lparr> vd_pq_handle := Some i \<rparr>],
                   lpa_result := \<lparr> solved = False, path = [], path_cost = PInf,
                                   goal_cost = PInf, goal_node = v_start \<rparr>,
                   lpa_goal_key := computeKey PInf PInf PInf \<rparr>
         else st0)"

definition getVertexData :: "Graph \<Rightarrow> LPAStarAlgorithm \<Rightarrow> uint \<Rightarrow> LPAStarAlgorithm" where
  "getVertexData G st v =
     (if lpa_vertex_data st v = None then
        st\<lparr> lpa_vertex_data := (lpa_vertex_data st)(v \<mapsto> new_VertexData v PInf (heuristic G v) PInf v) \<rparr>
      else st)"

definition vdata :: "Graph \<Rightarrow> LPAStarAlgorithm \<Rightarrow> uint \<Rightarrow> VertexData" where
  \<comment> \<open>the object that the reference returned by \<open>getVertexData\<close> refers to\<close>
  "vdata G st v =
     (case lpa_vertex_data st v of None \<Rightarrow> new_VertexData v PInf (heuristic G v) PInf v
      | Some d \<Rightarrow> d)"

definition set_vdata :: "LPAStarAlgorithm \<Rightarrow> uint \<Rightarrow> VertexData \<Rightarrow> LPAStarAlgorithm" where
  "set_vdata st v d = st\<lparr> lpa_vertex_data := (lpa_vertex_data st)(v \<mapsto> d) \<rparr>"

definition update_goal :: "Graph \<Rightarrow> LPAStarAlgorithm \<Rightarrow> uint \<Rightarrow> LPAStarAlgorithm" where
  \<comment> \<open>the second part of \<open>updateVertexKey\<close>\<close>
  "update_goal G st v =
     (let d = vdata G st v
      in if isGoalVertex G (vd_v d) then
           let gc = getGoalCostVertex G (vd_v d);
               v_goal_key = computeKey (vd_g d) gc (vd_rhs d)
           in if key_less v_goal_key (lpa_goal_key st) then
                st\<lparr> lpa_goal_key := v_goal_key,
                    lpa_result := (lpa_result st)
                      \<lparr> goal_node := vd_v d, goal_cost := gc, path_cost := vd_g d,
                        solved := (vd_g d = vd_rhs d) \<rparr> \<rparr>
              else st
         else st)"

definition update_membership ::
  "Graph \<Rightarrow> LPAStarAlgorithm \<Rightarrow> uint \<Rightarrow> error + LPAStarAlgorithm" where
  \<comment> \<open>the first part of \<open>updateVertexKey\<close>\<close>
  "update_membership G st v =
     (let d = vdata G st v
      in if vd_g d \<noteq> vd_rhs d \<and> vd_in_pq d then
           (case pq_set_key (lpa_pq st) (vd_pq_handle d)
                   (computeKey (vd_g d) (vd_h d) (vd_rhs d)) of
              Inl e \<Rightarrow> Inl e
            | Inr q \<Rightarrow> Inr (st\<lparr> lpa_pq := q \<rparr>))
         else if vd_g d \<noteq> vd_rhs d \<and> \<not> vd_in_pq d then
           let (i, st1) = pq_push st
                 \<lparr> el_v = vd_v d, el_key = computeKey (vd_g d) (vd_h d) (vd_rhs d) \<rparr>
           in Inr (set_vdata st1 v (d\<lparr> vd_pq_handle := Some i, vd_in_pq := True \<rparr>))
         else if vd_g d = vd_rhs d \<and> vd_in_pq d then
           (case pq_set_key (lpa_pq st) (vd_pq_handle d) (Fin 0, Fin 0) of
              Inl e \<Rightarrow> Inl e
            | Inr q \<Rightarrow>
                (case pq_pop q of Inl e \<Rightarrow> Inl e
                 | Inr q' \<Rightarrow> Inr (set_vdata (st\<lparr> lpa_pq := q' \<rparr>) v (d\<lparr> vd_in_pq := False \<rparr>))))
         else Inr st)"

definition updateVertexKey ::
  "Graph \<Rightarrow> LPAStarAlgorithm \<Rightarrow> uint \<Rightarrow> error + LPAStarAlgorithm" where
  "updateVertexKey G st v =
     (case update_membership G st v of Inl e \<Rightarrow> Inl e
      | Inr st1 \<Rightarrow> Inr (update_goal G st1 v))"

definition scan_pred :: "Graph \<Rightarrow> uint \<Rightarrow> uint \<Rightarrow> LPAStarAlgorithm \<Rightarrow> LPAStarAlgorithm" where
  \<comment> \<open>the body of the loop over the predecessors in \<open>handleCostIncrease\<close>\<close>
  "scan_pred G v s st =
     (let st1 = getVertexData G st s;
          s_data = vdata G st1 s;
          v_data = vdata G st1 v;
          rhs = xadd (vd_g s_data) (getEdgeCost G s (vd_v v_data) (lpa_lazy st1))
      in if xless rhs (vd_rhs v_data) then set_vdata st1 v (v_data\<lparr> vd_rhs := rhs, vd_p := s \<rparr>)
         else st1)"

definition handleCostIncrease ::
  "Graph \<Rightarrow> LPAStarAlgorithm \<Rightarrow> uint \<Rightarrow> uint \<Rightarrow> error + LPAStarAlgorithm" where
  "handleCostIncrease G st u v =
     (if vd_p (vdata G st v) = vd_v (vdata G st u) then
        updateVertexKey G
          (fold (scan_pred G v) (getPredecessors G (vd_v (vdata G st v)) (lpa_lazy st)) st) v
      else Inr st)"

definition handleCostDecrease ::
  "Graph \<Rightarrow> LPAStarAlgorithm \<Rightarrow> uint \<Rightarrow> uint \<Rightarrow> error + LPAStarAlgorithm" where
  "handleCostDecrease G st u v =
     (let u_data = vdata G st u; v_data = vdata G st v;
          edge_cost = getEdgeCost G (vd_v u_data) (vd_v v_data) (default_lazy G)
      in if xless (xadd (vd_g u_data) edge_cost) (vd_rhs v_data) then
           updateVertexKey G
             (set_vdata st v (v_data\<lparr> vd_p := vd_v u_data, vd_rhs := xadd (vd_g u_data) edge_cost \<rparr>)) v
         else Inr st)"

fun decrease_loop ::
  "Graph \<Rightarrow> uint \<Rightarrow> uint list \<Rightarrow> LPAStarAlgorithm \<Rightarrow> error + LPAStarAlgorithm" where
  "decrease_loop G u [] st = Inr st"
| "decrease_loop G u (s # ss) st =
     (case handleCostDecrease G (getVertexData G st s) u s of
        Inl e \<Rightarrow> Inl e
      | Inr st' \<Rightarrow> decrease_loop G u ss st')"

text \<open>
  The loop over the successors of an underconsistent vertex is
  \<^verbatim>\<open>for (; iter != end_iter; ++end_iter)\<close>: it advances the end of the range, not the
  position. Positions are indices into the successor list. Loops that may run forever take
  fuel, and \<open>None\<close> says that the fuel did not suffice.
\<close>

fun increase_loop ::
  "nat \<Rightarrow> Graph \<Rightarrow> uint \<Rightarrow> uint list \<Rightarrow> nat \<Rightarrow> nat \<Rightarrow> LPAStarAlgorithm
     \<Rightarrow> (error + LPAStarAlgorithm) option" where
  "increase_loop 0 G u succs iter end_iter st = None"
| "increase_loop (Suc n) G u succs iter end_iter st =
     (if iter \<noteq> end_iter then
        if iter < length succs then
          (case handleCostIncrease G (getVertexData G st (succs ! iter)) u (succs ! iter) of
             Inl e \<Rightarrow> Some (Inl e)
           | Inr st' \<Rightarrow> increase_loop n G u succs iter (Suc end_iter) st')
        else Some (Inl OutOfRange)
      else Some (Inr st))"

fun main_loop :: "nat \<Rightarrow> Graph \<Rightarrow> LPAStarAlgorithm \<Rightarrow> (error + LPAStarAlgorithm) option" where
  "main_loop 0 G st = None"
| "main_loop (Suc n) G st =
     (case pq_top (lpa_pq st) of
        None \<Rightarrow> Some (Inl EmptyHeap)
      | Some topel \<Rightarrow>
          if (key_less (el_key (snd topel)) (lpa_goal_key st) \<or> \<not> solved (lpa_result st))
             \<and> lpa_pq st \<noteq> []
          then
            if key_less (lpa_goal_key st) (el_key (snd topel)) then Some (Inl AssertionFailed)
            else
              (case pq_pop (lpa_pq st) of Inl e \<Rightarrow> Some (Inl e)
               | Inr q \<Rightarrow>
                   let u = el_v (snd topel);
                       st1 = getVertexData G (st\<lparr> lpa_pq := q \<rparr>) u;
                       u_data = vdata G st1 u
                   in if xless (vd_rhs u_data) (vd_g u_data) then
                        (case updateVertexKey G
                                (set_vdata st1 u (u_data\<lparr> vd_g := vd_rhs u_data \<rparr>)) u of
                           Inl e \<Rightarrow> Some (Inl e)
                         | Inr st2 \<Rightarrow>
                             (case decrease_loop G u (getSuccessors G (vd_v u_data) (lpa_lazy st2)) st2 of
                                Inl e \<Rightarrow> Some (Inl e)
                              | Inr st3 \<Rightarrow> main_loop n G st3))
                      else
                        (let st2 = set_vdata st1 u (u_data\<lparr> vd_g := PInf \<rparr>);
                             succs = getSuccessors G (vd_v u_data) (lpa_lazy st2)
                         in case increase_loop n G u succs 0 (length succs) st2 of
                              None \<Rightarrow> None
                            | Some (Inl e) \<Rightarrow> Some (Inl e)
                            | Some (Inr st3) \<Rightarrow>
                                (case updateVertexKey G st3 u of
                                   Inl e \<Rightarrow> Some (Inl e)
                                 | Inr st4 \<Rightarrow> main_loop n G st4)))
          else Some (Inr st))"

fun extractPath_loop ::
  "nat \<Rightarrow> uint \<Rightarrow> (uint \<rightharpoonup> VertexData) \<Rightarrow> uint \<Rightarrow> uint list \<Rightarrow> (error + uint list) option" where
  "extractPath_loop 0 v_start vertex_data v pth = None"
| "extractPath_loop (Suc n) v_start vertex_data v pth =
     (if v \<noteq> v_start then
        (case vertex_data v of None \<Rightarrow> Some (Inl OutOfRange)
         | Some d \<Rightarrow> extractPath_loop n v_start vertex_data (vd_p d) (pth @ [v]))
      else Some (Inr pth))"

definition extractPath ::
  "nat \<Rightarrow> uint \<Rightarrow> (uint \<rightharpoonup> VertexData) \<Rightarrow> SearchResult \<Rightarrow> (error + SearchResult) option" where
  "extractPath fuel v_start vertex_data result =
     (case extractPath_loop fuel v_start vertex_data (goal_node result) (path result) of
        None \<Rightarrow> None
      | Some (Inl e) \<Rightarrow> Some (Inl e)
      | Some (Inr pth) \<Rightarrow> Some (Inr (result\<lparr> path := rev (pth @ [v_start]) \<rparr>)))"

definition computeShortestPath ::
  "nat \<Rightarrow> Graph \<Rightarrow> LPAStarAlgorithm \<Rightarrow> (error + SearchResult \<times> LPAStarAlgorithm) option" where
  "computeShortestPath fuel G st =
     (case main_loop fuel G st of
        None \<Rightarrow> None
      | Some (Inl e) \<Rightarrow> Some (Inl e)
      | Some (Inr st') \<Rightarrow>
          let result = lpa_result st'
          in if solved result then
               (case extractPath fuel (lpa_v_start st') (lpa_vertex_data st') result of
                  None \<Rightarrow> None
                | Some (Inl e) \<Rightarrow> Some (Inl e)
                | Some (Inr r) \<Rightarrow> Some (Inr (r, st')))
             else Some (Inr (result, st')))"

section \<open>Concrete scenes, roadmaps and graphs\<close>

text \<open>
  The oracles of the examples: every configuration is valid, the distance is Euclidean and
  the point cost is constant, \<open>1 / 2\<close> (a clearance of 2 under \<open>costPerConfig\<close>) or 1.
\<close>

definition ss_half :: StateSpace where
  "ss_half = \<lparr> distance = cSpaceDistance, isValid_base = (\<lambda>c. True),
       isValid_grasp = (\<lambda>c g. True), cost_base = (\<lambda>c. Fin (1 / 2)),
       conditional_cost = (\<lambda>c g. Fin (1 / 2)) \<rparr>"

definition ss_unit :: StateSpace where
  "ss_unit = \<lparr> distance = cSpaceDistance, isValid_base = (\<lambda>c. True),
       isValid_grasp = (\<lambda>c g. True), cost_base = (\<lambda>c. Fin 1),
       conditional_cost = (\<lambda>c g. Fin 1) \<rparr>"

definition rm_empty :: Roadmap where
  "rm_empty = \<lparr> node_mem = Map.empty, edge_mem = Map.empty, next_node_addr = 0,
       next_edge_addr = 0, rm_nodes = Map.empty, rm_nn = [], rm_node_id_counter = 0,
       rm_densification_gen = 1, rm_gamma_prm = 1, rm_dimension = 1 \<rparr>"

text \<open>
  Two nodes on a line, at 0 and at 1, joined by one edge that was just created: its
  \<open>base_cost\<close> is the lower bound 1.
\<close>

definition rm_two :: Roadmap where
  "rm_two =
     \<lparr> node_mem = [0 \<mapsto> (new_Node 0 [0])\<lparr> edges := [(1, 0)] \<rparr>,
                    1 \<mapsto> (new_Node 1 [1])\<lparr> edges := [(0, 0)] \<rparr>],
       edge_mem = [0 \<mapsto> new_Edge 0 1 1],
       next_node_addr = 2, next_edge_addr = 1,
       rm_nodes = [0 \<mapsto> 0, 1 \<mapsto> 1], rm_nn = [0, 1], rm_node_id_counter = 2,
       rm_densification_gen = 1, rm_gamma_prm = 1, rm_dimension = 1 \<rparr>"

definition rm_two_resolved :: "xreal \<Rightarrow> Roadmap" where
  \<comment> \<open>\<open>rm_two\<close> after its edge was evaluated to the cost \<open>c\<close>\<close>
  "rm_two_resolved c =
     rm_two\<lparr> edge_mem := [0 \<mapsto> (new_Edge 0 1 1)\<lparr> base_cost := c, base_evaluated := True \<rparr>] \<rparr>"

definition adjacency :: "Roadmap \<Rightarrow> addr \<Rightarrow> (uint \<times> addr) list" where
  "adjacency rm a = (case node_mem rm a of None \<Rightarrow> [] | Some n \<Rightarrow> edges n)"

text \<open>
  Three nodes whose adjacency is up to date. Node 0 has an edge to node 1 that was found
  in collision (evaluated, infinite cost) and an edge to node 2 that is not evaluated.
\<close>

definition rm_three :: Roadmap where
  "rm_three =
     \<lparr> node_mem = [0 \<mapsto> (new_Node 0 [0])\<lparr> edges := [(1, 0), (2, 1)], densification_gen := 1 \<rparr>,
                    1 \<mapsto> (new_Node 1 [1])\<lparr> edges := [(0, 0)], densification_gen := 1 \<rparr>,
                    2 \<mapsto> (new_Node 2 [2])\<lparr> edges := [(0, 1)], densification_gen := 1 \<rparr>],
       edge_mem = [0 \<mapsto> (new_Edge 0 1 1)\<lparr> base_cost := PInf, base_evaluated := True \<rparr>,
                    1 \<mapsto> new_Edge 0 2 2],
       next_node_addr = 3, next_edge_addr = 2,
       rm_nodes = [0 \<mapsto> 0, 1 \<mapsto> 1, 2 \<mapsto> 2], rm_nn = [0, 1, 2], rm_node_id_counter = 3,
       rm_densification_gen = 1, rm_gamma_prm = 1, rm_dimension = 1 \<rparr>"

definition rm_three_pruned :: Roadmap where
  "rm_three_pruned =
     rm_three\<lparr> node_mem := (node_mem rm_three)
       (0 \<mapsto> (new_Node 0 [0])\<lparr> edges := [(2, 1)], densification_gen := 1 \<rparr>) \<rparr>"

text \<open>Goals and goal sets of the examples.\<close>

definition grasp7 :: Grasp where
  "grasp7 = \<lparr> grasp_ident = 7, pos = [0, 0, 0], quat = [1, 0, 0, 0], gripper_values = [] \<rparr>"

definition goal7 :: Goal where
  "goal7 = \<lparr> goal_ident = 7, goal_config = [1 / 2], grasp_id = 1, quality = 1 \<rparr>"

definition goal7_again :: Goal where
  \<comment> \<open>another goal under the id of \<open>goal7\<close>\<close>
  "goal7_again = \<lparr> goal_ident = 7, goal_config = [3 / 4], grasp_id = 2, quality = 0 \<rparr>"

definition goal8 :: Goal where
  "goal8 = \<lparr> goal_ident = 8, goal_config = [1 / 4], grasp_id = 1, quality = 3 \<rparr>"

definition gs_one :: MultiGraspGoalSet where
  "gs_one = \<lparr> gs_goals = [(7, goal7)], gs_goal_id_to_roadmap_id = [7 \<mapsto> 0],
       gs_roadmap_id_to_goal_id = [0 \<mapsto> 7] \<rparr>"

definition rm_one :: Roadmap where
  "rm_one = rm_empty\<lparr> node_mem := [0 \<mapsto> new_Node 0 [1 / 2]], next_node_addr := 1,
       rm_node_id_counter := 1, rm_nn := [0], rm_nodes := [0 \<mapsto> 0] \<rparr>"

definition gs_dup :: MultiGraspGoalSet where
  "gs_dup = \<lparr> gs_goals = [(7, goal7)], gs_goal_id_to_roadmap_id = [7 \<mapsto> 1],
       gs_roadmap_id_to_goal_id = [0 \<mapsto> 7, 1 \<mapsto> 7] \<rparr>"

definition rm_dup :: Roadmap where
  "rm_dup = rm_empty\<lparr> node_mem := [0 \<mapsto> new_Node 0 [1 / 2], 1 \<mapsto> new_Node 1 [3 / 4]],
       next_node_addr := 2, rm_node_id_counter := 2, rm_nn := [0, 1],
       rm_nodes := [0 \<mapsto> 0, 1 \<mapsto> 1] \<rparr>"

definition goalset_inv :: "MultiGraspGoalSet \<Rightarrow> Roadmap \<Rightarrow> bool" where
  \<comment> \<open>the goal map and the map from goal ids to roadmap ids have the same keys, and every
      roadmap id that is mapped to a goal was issued by the roadmap's id counter\<close>
  "goalset_inv gs rm =
     ((\<forall>k. (gs_goal_id_to_roadmap_id gs k = None) = (map_of (gs_goals gs) k = None))
      \<and> (\<forall>rid. gs_roadmap_id_to_goal_id gs rid \<noteq> None \<longrightarrow> rid < rm_node_id_counter rm))"

definition rm_two_deleted :: Roadmap where
  \<comment> \<open>\<open>rm_two\<close> after its node 0 was deleted\<close>
  "rm_two_deleted =
     rm_two\<lparr> rm_nn := [1], rm_nodes := [1 \<mapsto> 1],
              edge_mem := [0 \<mapsto> (new_Edge 0 1 1)\<lparr> base_evaluated := True, base_cost := PInf \<rparr>] \<rparr>"

text \<open>
  A graph of two vertices: the start 0 and the goal 1, joined by one edge of cost 5, with
  the zero heuristic and a goal cost of 1.
\<close>

definition G_line :: Graph where
  "G_line =
     \<lparr> getStartNode = 0, checkValidity = (\<lambda>v. True), heuristic = (\<lambda>v. Fin 0),
       getSuccessors = (\<lambda>v lazy. if v = 0 then [1] else []),
       getPredecessors = (\<lambda>v lazy. if v = 1 then [0] else []),
       getEdgeCost = (\<lambda>u v lazy. Fin 5), default_lazy = False,
       isGoalVertex = (\<lambda>v. v = 1), getGoalCostVertex = (\<lambda>v. Fin 1) \<rparr>"

definition G_invalid :: Graph where
  \<comment> \<open>the same graph with an invalid start\<close>
  "G_invalid = G_line\<lparr> checkValidity := (\<lambda>v. False) \<rparr>"

definition junk_solved :: SearchResult where
  \<comment> \<open>one possible content of the memory of a \<open>SearchResult\<close> that was never written\<close>
  "junk_solved = \<lparr> solved = True, path = [], path_cost = Fin 0, goal_cost = Fin 0, goal_node = 0 \<rparr>"

definition st_relaxed :: LPAStarAlgorithm where
  \<comment> \<open>the search on \<open>G_line\<close> at the moment \<open>handleCostDecrease\<close> has lowered \<open>rhs\<close> of the
      goal to 5 through the start and calls \<open>updateVertexKey\<close>: \<open>g\<close> of the goal is still
      infinite\<close>
  "st_relaxed =
     set_vdata (new_LPAStarAlgorithm G_line False junk_solved) 1
       ((new_VertexData 1 PInf (Fin 0) PInf 1)\<lparr> vd_p := 0, vd_rhs := Fin 5 \<rparr>)"

text \<open>
  A line with a wall: the configurations from \<open>1 / 2\<close> on are in collision, invalid and of
  infinite cost, the others valid and of cost 1.
\<close>

definition blocked :: "Config \<Rightarrow> bool" where
  "blocked c = (case c of [x] \<Rightarrow> 1 / 2 \<le> x | _ \<Rightarrow> False)"

definition ss_wall :: StateSpace where
  "ss_wall = \<lparr> distance = cSpaceDistance, isValid_base = (\<lambda>c. \<not> blocked c),
       isValid_grasp = (\<lambda>c g. \<not> blocked c),
       cost_base = (\<lambda>c. if blocked c then PInf else Fin 1),
       conditional_cost = (\<lambda>c g. if blocked c then PInf else Fin 1) \<rparr>"

definition si_line :: SpaceInformation where
  "si_line = \<lparr> dimension = 1, lower = [0], upper = [100] \<rparr>"

text \<open>
  The roadmap of the nodes 0 (at 0), 1 (at 1) and 2 (at 100) in which node 1 still holds
  the first edge to node 0, found in collision, and node 0 holds a second, newer edge to
  node 1 that node 1 does not hold.
\<close>

definition rm_stale :: Roadmap where
  "rm_stale =
     \<lparr> node_mem = [0 \<mapsto> (new_Node 0 [0])\<lparr> edges := [(1, 1)], densification_gen := 2 \<rparr>,
                    1 \<mapsto> (new_Node 1 [1])\<lparr> edges := [(0, 0)] \<rparr>,
                    2 \<mapsto> new_Node 2 [100]],
       edge_mem = [0 \<mapsto> (new_Edge 0 1 1)\<lparr> base_cost := PInf, base_evaluated := True \<rparr>,
                    1 \<mapsto> new_Edge 0 1 1],
       next_node_addr = 3, next_edge_addr = 2,
       rm_nodes = [0 \<mapsto> 0, 1 \<mapsto> 1, 2 \<mapsto> 2], rm_nn = [0, 1, 2], rm_node_id_counter = 3,
       rm_densification_gen = 2, rm_gamma_prm = 10, rm_dimension = 1 \<rparr>"


text \<open>
  A store with the goal set \<open>gs_one\<close> at address 0 and its roadmap at address 1; the same
  store after a heuristic object was constructed from the goal set, at address 2 with its
  structure for the grasp 1 at address 3; and that store after \<open>goal8\<close> was added to the
  goal set and the goal 7 removed from it.
\<close>

definition H_one :: Heap where
  "H_one = \<lparr> objects = [0 \<mapsto> GoalSetObj gs_one 1, 1 \<mapsto> RoadmapObj rm_one], next_free = 2 \<rparr>"

definition h_one :: MGGoalDistance where
  "h_one =
     \<lparr> all_goals = [goal7], goals_of_grasp = [(1, 3)], quality_normalizer = 1,
       goal_distance = \<lparr> scaled_lambda = 1, path_cost_fn = cSpaceDistance \<rparr>,
       max_quality = Some 1 \<rparr>"

definition H_built :: Heap where
  "H_built =
     \<lparr> objects = [0 \<mapsto> GoalSetObj gs_one 1, 1 \<mapsto> RoadmapObj rm_one,
                  2 \<mapsto> GoalDistanceObj h_one, 3 \<mapsto> GnatObj [goal7]],
       next_free = 4 \<rparr>"

definition gs_eight :: MultiGraspGoalSet where
  "gs_eight = \<lparr> gs_goals = [(8, goal8)], gs_goal_id_to_roadmap_id = [8 \<mapsto> 1],
       gs_roadmap_id_to_goal_id = [1 \<mapsto> 8] \<rparr>"

definition H_changed :: Heap where
  "H_changed =
     H_built\<lparr> objects := (objects H_built)
       (1 \<mapsto> RoadmapObj (snd (addNode rm_one [1 / 4])), 0 \<mapsto> GoalSetObj gs_eight 1) \<rparr>"

section \<open>Facts about the integrators\<close>

lemma vnorm_single: "vnorm [x] = \<bar>x\<bar>"
  by (simp add: vnorm_def)

lemma IECC_half: "IECC_integrateCosts (1 / 2) (\<lambda>c. Fin (1 / 2)) [0] [1] = Inr (Fin (1 / 2))"
  by (simp add: IECC_integrateCosts_def vsub_def vnorm_single num_steps_of_def
      vaxpy_def vdiv_def numeral_2_eq_2)

text \<open>
  Claim C6. The two integrators are claimed to return equal values, both weighting the
  last, partial step by what is left of the segment. \<open>IntegralEdgeCostComputer\<close> does so;
  \<open>ORSceneInterface::integrateCosts\<close> weights every sample by the full \<open>STEP_SIZE\<close>. On the
  segment from 0 to 0.0015 with point cost 1 everywhere the first returns 0.0015, the length
  of the segment, and the second 0.002, two full steps.
\<close>

theorem integrateCosts_differ:
  "IECC_integrateCosts STEP_SIZE (costPerConfig unit_scene) [0] [3 / 2000] = Inr (Fin (3 / 2000))
   \<and> OR_integrateCosts unit_scene [0] [3 / 2000] = Inr (Fin (2 / 1000))"
  by (simp add: IECC_integrateCosts_def OR_integrateCosts_def vsub_def vnorm_single
      num_steps_of_def STEP_SIZE_def costPerConfig_def unit_scene_def vaxpy_def vdiv_def
      numeral_2_eq_2)

section \<open>Facts about the roadmap\<close>

lemma rm_two_reachable:
  "connect (IntegralEdgeCostComputer ss_half (1 / 2)) 0 1
     (snd (addNode (snd (addNode rm_empty [0])) [1])) = rm_two"
  by (simp add: connect_def addNode_def rm_empty_def rm_two_def Let_def new_Node_def
      map_insert_def IntegralEdgeCostComputer_def IECC_lowerBound_def ss_half_def
      cSpaceDistance_def vsub_def vnorm_single new_Edge_def fun_upd_twist)

lemma connect_admissible:
  assumes "node_mem rm a = Some node" "node_mem rm na = Some neigh"
      "map_of (edges node) (uid neigh) = None" "na \<noteq> a"
  shows "edge_admissible ecc (connect ecc a na rm) (next_edge_addr rm)"
  using assms
  by (simp add: connect_def edge_admissible_def Let_def new_Edge_def xle_def)

lemma computeCost_grasp_admissible:
  assumes "edge_admissible ecc rm e" "computeCost_grasp ecc rm e' gid = Inr (r, rm')"
  shows "edge_admissible ecc rm' e"
  using assms
  by (auto simp: computeCost_grasp_def edge_admissible_def
      split: option.splits if_splits sum.splits)

lemma kill_edge_admissible:
  "edge_admissible ecc rm e \<Longrightarrow> edge_admissible ecc (kill_edge x rm) e"
  by (auto simp: kill_edge_def edge_admissible_def xle_def split: option.splits)

lemma fold_kill_edge_admissible:
  "edge_admissible ecc rm e \<Longrightarrow> edge_admissible ecc (fold kill_edge es rm) e"
  by (induction es arbitrary: rm) (simp_all add: kill_edge_admissible)

lemma deleteNode_admissible:
  assumes "edge_admissible ecc rm e" "deleteNode rm a = Inr rm'"
  shows "edge_admissible ecc rm' e"
proof (cases "node_mem rm a")
  case None
  with assms(2) show ?thesis by (simp add: deleteNode_def)
next
  case (Some node)
  let ?rm0 = "rm\<lparr> rm_nn := removeAll a (rm_nn rm), rm_nodes := (rm_nodes rm)(uid node := None) \<rparr>"
  from assms(2) Some have r: "rm' = fold kill_edge (map snd (edges node)) ?rm0"
    by (auto simp: deleteNode_def split: option.splits)
  from assms(1) have "edge_admissible ecc ?rm0 e"
    by (auto simp: edge_admissible_def split: option.splits)
  then show ?thesis unfolding r by (rule fold_kill_edge_admissible)
qed

text \<open>
  Claim C1, as stated: \<open>base_cost\<close> is at least the lower bound of the edge at every time,
  also after \<open>computeCost\<close>. It fails: \<open>computeCost\<close> replaces the lower bound by the
  integrated point cost, and where the point cost is below 1 (under \<open>costPerConfig\<close>, a
  clearance above 1) the integral is below the distance. On the edge from 0 to 1 with
  point cost \<open>1 / 2\<close> the lower bound is 1 and the evaluated \<open>base_cost\<close> is \<open>1 / 2\<close>.
\<close>

theorem computeCost_below_lowerBound:
  "edge_admissible (IntegralEdgeCostComputer ss_half (1 / 2)) rm_two 0
   \<and> computeCost (IntegralEdgeCostComputer ss_half (1 / 2)) rm_two 0
       = Inr ((True, Fin (1 / 2)), rm_two_resolved (Fin (1 / 2)))
   \<and> \<not> edge_admissible (IntegralEdgeCostComputer ss_half (1 / 2)) (rm_two_resolved (Fin (1 / 2))) 0"
  by (simp add: edge_admissible_def computeCost_def rm_two_def rm_two_resolved_def
      IntegralEdgeCostComputer_def IECC_lowerBound_def IECC_cost_def ss_half_def
      cSpaceDistance_def vsub_def vnorm_single new_Edge_def new_Node_def xle_def IECC_half)

lemma kill_edge_base_cost:
  "map_option base_cost (edge_mem (kill_edge x rm) e)
     = (if e = x then map_option (\<lambda>ed. PInf) (edge_mem rm e)
        else map_option base_cost (edge_mem rm e))"
  by (auto simp: kill_edge_def split: option.splits)

lemma fold_kill_edge_base_cost:
  "map_option base_cost (edge_mem (fold kill_edge es rm) e)
     = (if e \<in> set es then map_option (\<lambda>ed. PInf) (edge_mem rm e)
        else map_option base_cost (edge_mem rm e))"
proof (induction es arbitrary: rm)
  case Nil
  show ?case by simp
next
  case (Cons x es)
  have keep: "map_option (\<lambda>ed. PInf) (edge_mem (kill_edge x rm) e)
                = map_option (\<lambda>ed. PInf) (edge_mem rm e)"
    by (auto simp: kill_edge_def split: option.splits)
  show ?case
    using Cons.IH [of "kill_edge x rm"] kill_edge_base_cost [of x rm e] keep
    by (cases "edge_mem rm e") auto
qed

lemma deleteNode_base_cost:
  assumes "node_mem rm a = Some node" "deleteNode rm a = Inr rm'"
  shows "map_option base_cost (edge_mem rm' e)
     = (if e \<in> snd ` set (edges node) then map_option (\<lambda>ed. PInf) (edge_mem rm e)
        else map_option base_cost (edge_mem rm e))"
proof -
  let ?rm0 = "rm\<lparr> rm_nn := removeAll a (rm_nn rm), rm_nodes := (rm_nodes rm)(uid node := None) \<rparr>"
  from assms have r: "rm' = fold kill_edge (map snd (edges node)) ?rm0"
    by (auto simp: deleteNode_def split: option.splits)
  show ?thesis
    unfolding r using fold_kill_edge_base_cost [of "map snd (edges node)" ?rm0 e] by simp
qed

lemma connect_new_edge:
  assumes "node_mem rm a = Some node" "node_mem rm na = Some neigh"
      "map_of (edges node) (uid neigh) = None" "na \<noteq> a"
  shows "edge_mem (connect ecc a na rm) (next_edge_addr rm)
           = Some (new_Edge a na (lowerBound ecc (config node) (config neigh)))
       \<and> map_option config (node_mem (connect ecc a na rm) a) = Some (config node)
       \<and> map_option config (node_mem (connect ecc a na rm) na) = Some (config neigh)"
  using assms by (simp add: connect_def Let_def)

lemma computeCost_grasp_base_cost:
  assumes "computeCost_grasp ecc rm e' gid = Inr (r, rm')"
  shows "map_option base_cost (edge_mem rm' e) = map_option base_cost (edge_mem rm e)"
  using assms
  by (auto simp: computeCost_grasp_def split: option.splits if_splits sum.splits)

lemma computeCost_base_cost:
  assumes "edge_mem rm e' = Some edge" "computeCost ecc rm e' = Inr (r, rm')"
  shows "map_option base_cost (edge_mem rm' e)
           = (if e = e' then Some (snd r) else map_option base_cost (edge_mem rm e))"
  using assms
  by (auto simp: computeCost_def split: option.splits if_splits sum.splits)

lemma computeCost_value:
  assumes "edge_mem rm e' = Some edge" "node_mem rm (node_a edge) = Some na"
      "node_mem rm (node_b edge) = Some nb" "computeCost ecc rm e' = Inr (r, rm')"
  shows "(if base_evaluated edge then snd r = base_cost edge \<and> rm' = rm
          else cost ecc (config na) (config nb) = Inr (snd r))
       \<and> edge_admissible ecc rm' e' = xle (Fin (lowerBound ecc (config na) (config nb))) (snd r)"
  using assms
  by (auto simp: computeCost_def edge_admissible_def split: option.splits if_splits sum.splits)

text \<open>
  Claim C1, amended: an edge is created with \<open>base_cost\<close> equal to the lower bound of its
  endpoints; \<open>computeCost\<close> with a grasp id changes no \<open>base_cost\<close>; deleting a node sets the
  \<open>base_cost\<close> of the edges in its adjacency map to infinity and changes no other; so
  \<open>base_cost\<close> is at least the lower bound at creation and stays so under these two.
  \<open>computeCost\<close> without a grasp id changes the \<open>base_cost\<close> of its edge only: an evaluated
  edge keeps it, an edge not yet evaluated gets the cost that the edge-cost computer
  returns for its endpoints, and after the call \<open>base_cost\<close> is at least the lower bound
  exactly if the returned cost is.
\<close>

theorem base_cost_lifecycle:
  "(node_mem rm0 a = Some node \<and> node_mem rm0 na = Some neigh
      \<and> map_of (edges node) (uid neigh) = None \<and> na \<noteq> a
    \<longrightarrow> edge_mem (connect ecc a na rm0) (next_edge_addr rm0)
          = Some (new_Edge a na (lowerBound ecc (config node) (config neigh)))
        \<and> map_option config (node_mem (connect ecc a na rm0) a) = Some (config node)
        \<and> map_option config (node_mem (connect ecc a na rm0) na) = Some (config neigh)
        \<and> edge_admissible ecc (connect ecc a na rm0) (next_edge_addr rm0))
   \<and> (computeCost_grasp ecc rm e1 gid = Inr (r1, rm1)
    \<longrightarrow> map_option base_cost (edge_mem rm1 e) = map_option base_cost (edge_mem rm e)
        \<and> (edge_admissible ecc rm e \<longrightarrow> edge_admissible ecc rm1 e))
   \<and> (node_mem rm a3 = Some node3 \<and> deleteNode rm a3 = Inr rm3
    \<longrightarrow> map_option base_cost (edge_mem rm3 e)
          = (if e \<in> snd ` set (edges node3) then map_option (\<lambda>ed. PInf) (edge_mem rm e)
             else map_option base_cost (edge_mem rm e))
        \<and> (edge_admissible ecc rm e \<longrightarrow> edge_admissible ecc rm3 e))
   \<and> (edge_mem rm e2 = Some edge2 \<and> node_mem rm (node_a edge2) = Some na2
      \<and> node_mem rm (node_b edge2) = Some nb2 \<and> computeCost ecc rm e2 = Inr (r2, rm2)
    \<longrightarrow> map_option base_cost (edge_mem rm2 e)
          = (if e = e2 then Some (snd r2) else map_option base_cost (edge_mem rm e))
        \<and> (if base_evaluated edge2 then snd r2 = base_cost edge2 \<and> rm2 = rm
            else cost ecc (config na2) (config nb2) = Inr (snd r2))
        \<and> edge_admissible ecc rm2 e2
            = xle (Fin (lowerBound ecc (config na2) (config nb2))) (snd r2))"
proof (intro conjI impI)
  assume h: "node_mem rm0 a = Some node \<and> node_mem rm0 na = Some neigh
      \<and> map_of (edges node) (uid neigh) = None \<and> na \<noteq> a"
  then show "edge_mem (connect ecc a na rm0) (next_edge_addr rm0)
          = Some (new_Edge a na (lowerBound ecc (config node) (config neigh)))"
    and "map_option config (node_mem (connect ecc a na rm0) a) = Some (config node)"
    and "map_option config (node_mem (connect ecc a na rm0) na) = Some (config neigh)"
    using connect_new_edge [of rm0 a node na neigh ecc] by simp_all
  from h show "edge_admissible ecc (connect ecc a na rm0) (next_edge_addr rm0)"
    by (simp add: connect_admissible)
next
  assume "computeCost_grasp ecc rm e1 gid = Inr (r1, rm1)"
  then show "map_option base_cost (edge_mem rm1 e) = map_option base_cost (edge_mem rm e)"
    by (rule computeCost_grasp_base_cost)
next
  assume "computeCost_grasp ecc rm e1 gid = Inr (r1, rm1)" and "edge_admissible ecc rm e"
  then show "edge_admissible ecc rm1 e"
    using computeCost_grasp_admissible by blast
next
  assume "node_mem rm a3 = Some node3 \<and> deleteNode rm a3 = Inr rm3"
  then show "map_option base_cost (edge_mem rm3 e)
          = (if e \<in> snd ` set (edges node3) then map_option (\<lambda>ed. PInf) (edge_mem rm e)
             else map_option base_cost (edge_mem rm e))"
    using deleteNode_base_cost by blast
next
  assume "node_mem rm a3 = Some node3 \<and> deleteNode rm a3 = Inr rm3"
    and "edge_admissible ecc rm e"
  then show "edge_admissible ecc rm3 e"
    using deleteNode_admissible by blast
next
  assume h: "edge_mem rm e2 = Some edge2 \<and> node_mem rm (node_a edge2) = Some na2
      \<and> node_mem rm (node_b edge2) = Some nb2 \<and> computeCost ecc rm e2 = Inr (r2, rm2)"
  then show "map_option base_cost (edge_mem rm2 e)
          = (if e = e2 then Some (snd r2) else map_option base_cost (edge_mem rm e))"
    using computeCost_base_cost by blast
  from h computeCost_value [of rm e2 edge2 na2 nb2 ecc r2 rm2]
  show "if base_evaluated edge2 then snd r2 = base_cost edge2 \<and> rm2 = rm
        else cost ecc (config na2) (config nb2) = Inr (snd r2)"
    and "edge_admissible ecc rm2 e2
            = xle (Fin (lowerBound ecc (config na2) (config nb2))) (snd r2)"
    by simp_all
qed

theorem base_cost_lifecycle_witness:
  "edge_mem (connect (IntegralEdgeCostComputer ss_half (1 / 2)) 0 1
       (snd (addNode (snd (addNode rm_empty [0])) [1]))) 0 = Some (new_Edge 0 1 1)
   \<and> edge_admissible (IntegralEdgeCostComputer ss_half (1 / 2)) rm_two 0
   \<and> computeCost_grasp (IntegralEdgeCostComputer ss_half (1 / 2)) rm_two 0 5
       = Inr ((True, Fin (1 / 2)),
           rm_two\<lparr> edge_mem := [0 \<mapsto> (new_Edge 0 1 1)\<lparr> conditional_costs := [5 \<mapsto> Fin (1 / 2)] \<rparr>] \<rparr>)
   \<and> map_option base_cost (edge_mem
         (rm_two\<lparr> edge_mem := [0 \<mapsto> (new_Edge 0 1 1)\<lparr> conditional_costs := [5 \<mapsto> Fin (1 / 2)] \<rparr>] \<rparr>) 0)
       = Some (Fin 1)
   \<and> edge_admissible (IntegralEdgeCostComputer ss_half (1 / 2))
        (rm_two\<lparr> edge_mem := [0 \<mapsto> (new_Edge 0 1 1)\<lparr> conditional_costs := [5 \<mapsto> Fin (1 / 2)] \<rparr>] \<rparr>) 0
   \<and> deleteNode rm_two 0 = Inr rm_two_deleted
   \<and> map_option base_cost (edge_mem rm_two_deleted 0) = Some PInf
   \<and> edge_admissible (IntegralEdgeCostComputer ss_half (1 / 2)) rm_two_deleted 0
   \<and> computeCost (IntegralEdgeCostComputer ss_half (1 / 2)) rm_two 0
       = Inr ((True, Fin (1 / 2)), rm_two_resolved (Fin (1 / 2)))
   \<and> cost (IntegralEdgeCostComputer ss_half (1 / 2)) [0] [1] = Inr (Fin (1 / 2))
   \<and> map_option base_cost (edge_mem (rm_two_resolved (Fin (1 / 2))) 0) = Some (Fin (1 / 2))
   \<and> computeCost (IntegralEdgeCostComputer ss_half (1 / 2)) (rm_two_resolved (Fin (1 / 2))) 0
       = Inr ((True, Fin (1 / 2)), rm_two_resolved (Fin (1 / 2)))
   \<and> \<not> edge_admissible (IntegralEdgeCostComputer ss_half (1 / 2)) (rm_two_resolved (Fin (1 / 2))) 0"
proof -
  let ?ecc = "IntegralEdgeCostComputer ss_half (1 / 2)"
  let ?rm0 = "snd (addNode (snd (addNode rm_empty [0])) [1])"
  let ?rm1 = "rm_two\<lparr> edge_mem := [0 \<mapsto> (new_Edge 0 1 1)\<lparr> conditional_costs := [5 \<mapsto> Fin (1 / 2)] \<rparr>] \<rparr>"
  let ?n0 = "(new_Node 0 [0])\<lparr> edges := [(1, 0)] \<rparr>"
  let ?n1 = "(new_Node 1 [1])\<lparr> edges := [(0, 0)] \<rparr>"
  let ?e = "(new_Edge 0 1 1)\<lparr> base_cost := Fin (1 / 2), base_evaluated := True \<rparr>"
  have n0: "node_mem ?rm0 0 = Some (new_Node 0 [0])"
    by (simp add: addNode_def rm_empty_def Let_def)
  have n1: "node_mem ?rm0 1 = Some (new_Node 1 [1])"
    by (simp add: addNode_def rm_empty_def Let_def)
  have fr: "map_of (edges (new_Node 0 [0])) (uid (new_Node 1 [1])) = None \<and> (1::nat) \<noteq> 0"
    by (simp add: new_Node_def)
  have ne: "next_edge_addr ?rm0 = 0" by (simp add: addNode_def rm_empty_def Let_def)
  have lb: "lowerBound ?ecc [0] [1] = 1"
    by (simp add: IntegralEdgeCostComputer_def IECC_lowerBound_def ss_half_def
        cSpaceDistance_def vsub_def vnorm_single)
  have cfg: "config (new_Node 0 [0]) = [0] \<and> config (new_Node 1 [1]) = [1]
      \<and> config ?n0 = [0] \<and> config ?n1 = [1]"
    by (simp add: new_Node_def)
  have a0: "edge_admissible ?ecc rm_two 0"
    by (simp add: edge_admissible_def rm_two_def lb new_Edge_def new_Node_def xle_def)
  have g: "computeCost_grasp ?ecc rm_two 0 5 = Inr ((True, Fin (1 / 2)), ?rm1)"
    by (simp add: computeCost_grasp_def rm_two_def IntegralEdgeCostComputer_def
        IECC_cost_grasp_def ss_half_def new_Edge_def new_Node_def IECC_half)
  have d0: "node_mem rm_two 0 = Some ?n0" by (simp add: rm_two_def)
  have d: "deleteNode rm_two 0 = Inr rm_two_deleted"
    by (simp add: deleteNode_def kill_edge_def rm_two_def rm_two_deleted_def new_Node_def
        new_Edge_def fun_upd_twist)
  have din: "(0::nat) \<in> snd ` set (edges ?n0)" by (simp add: new_Node_def)
  have em: "edge_mem rm_two 0 = Some (new_Edge 0 1 1)" by (simp add: rm_two_def)
  have ends: "node_mem rm_two (node_a (new_Edge 0 1 1)) = Some ?n0
      \<and> node_mem rm_two (node_b (new_Edge 0 1 1)) = Some ?n1"
    by (simp add: rm_two_def new_Edge_def)
  have ne0: "\<not> base_evaluated (new_Edge 0 1 1)" by (simp add: new_Edge_def)
  have c: "computeCost ?ecc rm_two 0 = Inr ((True, Fin (1 / 2)), rm_two_resolved (Fin (1 / 2)))"
    by (simp add: computeCost_def rm_two_def rm_two_resolved_def IntegralEdgeCostComputer_def
        IECC_cost_def ss_half_def new_Edge_def new_Node_def IECC_half)
  have em2: "edge_mem (rm_two_resolved (Fin (1 / 2))) 0 = Some ?e"
    by (simp add: rm_two_resolved_def)
  have ends2: "node_mem (rm_two_resolved (Fin (1 / 2))) (node_a ?e) = Some ?n0
      \<and> node_mem (rm_two_resolved (Fin (1 / 2))) (node_b ?e) = Some ?n1"
    by (simp add: rm_two_resolved_def rm_two_def new_Edge_def)
  have ev: "base_evaluated ?e" by simp
  have c2: "computeCost ?ecc (rm_two_resolved (Fin (1 / 2))) 0
      = Inr ((True, Fin (1 / 2)), rm_two_resolved (Fin (1 / 2)))"
    by (simp add: computeCost_def rm_two_resolved_def new_Edge_def)
  note first = base_cost_lifecycle [where ecc = ?ecc and ?rm0.0 = ?rm0 and a = 0 and na = 1
      and node = "new_Node 0 [0]" and neigh = "new_Node 1 [1]" and rm = rm_two and e = 0
      and ?e1.0 = 0 and gid = 5 and ?r1.0 = "(True, Fin (1 / 2))" and ?rm1.0 = ?rm1
      and ?a3.0 = 0 and ?node3.0 = ?n0 and ?rm3.0 = rm_two_deleted
      and ?e2.0 = 0 and ?edge2.0 = "new_Edge 0 1 1" and ?na2.0 = ?n0 and ?nb2.0 = ?n1
      and ?r2.0 = "(True, Fin (1 / 2))" and ?rm2.0 = "rm_two_resolved (Fin (1 / 2))"]
  note second = base_cost_lifecycle [where ecc = ?ecc and rm = "rm_two_resolved (Fin (1 / 2))"
      and e = 0 and ?e2.0 = 0 and ?edge2.0 = ?e and ?na2.0 = ?n0 and ?nb2.0 = ?n1
      and ?r2.0 = "(True, Fin (1 / 2))" and ?rm2.0 = "rm_two_resolved (Fin (1 / 2))"]
  have pre: "node_mem ?rm0 0 = Some (new_Node 0 [0]) \<and> node_mem ?rm0 1 = Some (new_Node 1 [1])
      \<and> map_of (edges (new_Node 0 [0])) (uid (new_Node 1 [1])) = None \<and> (1::nat) \<noteq> 0"
    using n0 n1 fr by simp
  note A = first [THEN conjunct1, THEN mp, OF pre]
  note B = first [THEN conjunct2, THEN conjunct1, THEN mp, OF g]
  note C = first [THEN conjunct2, THEN conjunct2, THEN conjunct1, THEN mp, OF conjI [OF d0 d]]
  have pre2: "edge_mem rm_two 0 = Some (new_Edge 0 1 1)
      \<and> node_mem rm_two (node_a (new_Edge 0 1 1)) = Some ?n0
      \<and> node_mem rm_two (node_b (new_Edge 0 1 1)) = Some ?n1
      \<and> computeCost ?ecc rm_two 0 = Inr ((True, Fin (1 / 2)), rm_two_resolved (Fin (1 / 2)))"
    using em ends c by simp
  note D = first [THEN conjunct2, THEN conjunct2, THEN conjunct2, THEN mp, OF pre2]
  have pre3: "edge_mem (rm_two_resolved (Fin (1 / 2))) 0 = Some ?e
      \<and> node_mem (rm_two_resolved (Fin (1 / 2))) (node_a ?e) = Some ?n0
      \<and> node_mem (rm_two_resolved (Fin (1 / 2))) (node_b ?e) = Some ?n1
      \<and> computeCost ?ecc (rm_two_resolved (Fin (1 / 2))) 0
          = Inr ((True, Fin (1 / 2)), rm_two_resolved (Fin (1 / 2)))"
    using em2 ends2 c2 by simp
  note D2 = second [THEN conjunct2, THEN conjunct2, THEN conjunct2, THEN mp, OF pre3]
  from A have c1: "edge_mem (connect ?ecc 0 1 ?rm0) 0 = Some (new_Edge 0 1 1)"
    by (simp add: ne lb cfg)
  from B a0 have c2': "map_option base_cost (edge_mem ?rm1 0) = Some (Fin 1)
      \<and> edge_admissible ?ecc ?rm1 0"
    by (simp add: em new_Edge_def)
  from C a0 din have c3: "map_option base_cost (edge_mem rm_two_deleted 0) = Some PInf
      \<and> edge_admissible ?ecc rm_two_deleted 0"
    by (simp add: em)
  from D ne0 have c4: "cost ?ecc [0] [1] = Inr (Fin (1 / 2))
      \<and> map_option base_cost (edge_mem (rm_two_resolved (Fin (1 / 2))) 0) = Some (Fin (1 / 2))"
    by (simp add: cfg)
  from D2 ev have c5: "\<not> edge_admissible ?ecc (rm_two_resolved (Fin (1 / 2))) 0"
    by (simp add: lb cfg xle_def)
  from c1 a0 g c2' d c3 c c4 c2 c5 show ?thesis by simp
qed

lemma connect_adjacency_mono: "set (adjacency rm m) \<subseteq> set (adjacency (connect ecc a na rm) m)"
  by (auto simp: connect_def adjacency_def map_insert_def Let_def split: option.splits)

lemma connect_edge_mem:
  "next_edge_addr rm \<le> next_edge_addr (connect ecc a na rm)
   \<and> (\<forall>e < next_edge_addr rm. edge_mem (connect ecc a na rm) e = edge_mem rm e)"
  by (auto simp: connect_def Let_def split: option.splits)

lemma fold_connect_adjacency_mono:
  "set (adjacency rm m) \<subseteq> set (adjacency (fold (connect ecc a) ns rm) m)"
proof (induction ns arbitrary: rm)
  case Nil
  show ?case by simp
next
  case (Cons n ns)
  have "set (adjacency rm m) \<subseteq> set (adjacency (connect ecc a n rm) m)"
    by (rule connect_adjacency_mono)
  also have "\<dots> \<subseteq> set (adjacency (fold (connect ecc a) ns (connect ecc a n rm)) m)"
    by (rule Cons.IH)
  finally show ?case by simp
qed

lemma fold_connect_edge_mem:
  "next_edge_addr rm \<le> next_edge_addr (fold (connect ecc a) ns rm)
   \<and> (\<forall>e < next_edge_addr rm. edge_mem (fold (connect ecc a) ns rm) e = edge_mem rm e)"
proof (induction ns arbitrary: rm)
  case Nil
  show ?case by simp
next
  case (Cons n ns)
  from connect_edge_mem [of rm ecc a n] Cons.IH [of "connect ecc a n rm"]
  show ?case by auto
qed

lemma prune_own: "\<forall>ke \<in> set (adjacency (prune rm a) a). \<not> dead (prune rm a) (snd ke)"
  by (auto simp: prune_def adjacency_def dead_def split: option.splits)

lemma prune_other: "m \<noteq> a \<Longrightarrow> adjacency (prune rm a) m = adjacency rm m"
  by (auto simp: prune_def adjacency_def split: option.splits)

lemma prune_edge_mem: "edge_mem (prune rm a) = edge_mem rm"
  by (auto simp: prune_def split: option.splits)

lemma updateAdjacency_cases:
  assumes "updateAdjacency ss ecc rm a = Inr rm'"
  obtains rm2 where "rm' = prune rm2 a"
    and "\<forall>m. m \<noteq> a \<longrightarrow> set (adjacency rm m) \<subseteq> set (adjacency rm2 m)"
    and "\<forall>e < next_edge_addr rm. edge_mem rm2 e = edge_mem rm e"
proof (cases "node_mem rm a")
  case None
  with assms show ?thesis by (simp add: updateAdjacency_def)
next
  case (Some node)
  show ?thesis
  proof (cases "densification_gen node = rm_densification_gen rm")
    case True
    with assms Some have "rm' = prune rm a" by (simp add: updateAdjacency_def)
    then show ?thesis using that [of rm] by simp
  next
    case False
    define ns where "ns = nearestR ss rm node
      (rm_gamma_prm rm * (ln (real (length (rm_nn rm))) / real (length (rm_nn rm)))
         powr (1 / real (rm_dimension rm)))"
    define rm1 where "rm1 = fold (connect ecc a) ns rm"
    define rm2 where "rm2 = (case node_mem rm1 a of None \<Rightarrow> rm1
       | Some node1 \<Rightarrow> rm1\<lparr> node_mem := (node_mem rm1)
             (a \<mapsto> node1\<lparr> densification_gen := rm_densification_gen rm \<rparr>) \<rparr>)"
    have r: "rm' = prune rm2 a"
      using assms Some False unfolding rm2_def rm1_def ns_def
      by (auto simp: updateAdjacency_def Let_def)
    have a2: "\<forall>m. m \<noteq> a \<longrightarrow> adjacency rm2 m = adjacency rm1 m"
      by (auto simp: rm2_def adjacency_def split: option.splits)
    have e2: "edge_mem rm2 = edge_mem rm1"
      by (auto simp: rm2_def split: option.splits)
    from a2 fold_connect_adjacency_mono [of rm _ ecc a ns]
    have "\<forall>m. m \<noteq> a \<longrightarrow> set (adjacency rm m) \<subseteq> set (adjacency rm2 m)"
      by (simp add: rm1_def)
    moreover from e2 fold_connect_edge_mem [of rm ecc a ns]
    have "\<forall>e < next_edge_addr rm. edge_mem rm2 e = edge_mem rm e"
      by (simp add: rm1_def)
    ultimately show ?thesis using that [of rm2] r by blast
  qed
qed

text \<open>
  Claim C5, as stated: after \<open>updateAdjacency(n)\<close> a dead edge of \<open>n\<close> is absent from the
  adjacency maps of both of its endpoints. It fails: the clean-up loop erases from
  \<open>node->edges\<close> only. In \<open>rm_three\<close> the edge at address 0 joins the nodes 0 and 1 and is
  dead; after \<open>updateAdjacency\<close> of node 0 it is gone from the adjacency of node 0 and
  still in the adjacency of node 1.
\<close>

theorem updateAdjacency_keeps_neighbour_entry:
  "dead rm_three 0
   \<and> adjacency rm_three 0 = [(1, 0), (2, 1)]
   \<and> adjacency rm_three 1 = [(0, 0)]
   \<and> updateAdjacency ss_unit (IntegralEdgeCostComputer ss_unit (1 / 2)) rm_three 0
       = Inr rm_three_pruned
   \<and> adjacency rm_three_pruned 0 = [(2, 1)]
   \<and> adjacency rm_three_pruned 1 = [(0, 0)]
   \<and> dead rm_three_pruned 0"
  by (simp add: updateAdjacency_def prune_def dead_def adjacency_def rm_three_def
      rm_three_pruned_def new_Node_def new_Edge_def)

text \<open>
  Claim C5, amended: after \<open>updateAdjacency(n)\<close> the adjacency map of \<open>n\<close> itself holds
  no edge with \<open>base_evaluated\<close> and infinite \<open>base_cost\<close>; the edge objects that existed
  before the call are unchanged; and no entry is erased from the adjacency map of any
  other node, so the other endpoint keeps a dead edge until \<open>updateAdjacency\<close> is called
  on it.
\<close>

theorem updateAdjacency_prunes_own_map:
  assumes "updateAdjacency ss ecc rm a = Inr rm'"
  shows "(\<forall>ke \<in> set (adjacency rm' a). \<not> dead rm' (snd ke))
       \<and> (\<forall>e < next_edge_addr rm. edge_mem rm' e = edge_mem rm e)
       \<and> (\<forall>m. m \<noteq> a \<longrightarrow> set (adjacency rm m) \<subseteq> set (adjacency rm' m))"
proof -
  from assms obtain rm2 where r: "rm' = prune rm2 a"
    and adj: "\<forall>m. m \<noteq> a \<longrightarrow> set (adjacency rm m) \<subseteq> set (adjacency rm2 m)"
    and em: "\<forall>e < next_edge_addr rm. edge_mem rm2 e = edge_mem rm e"
    by (rule updateAdjacency_cases)
  have "\<forall>ke \<in> set (adjacency rm' a). \<not> dead rm' (snd ke)"
    unfolding r by (rule prune_own)
  moreover have "\<forall>e < next_edge_addr rm. edge_mem rm' e = edge_mem rm e"
    using em by (simp add: r prune_edge_mem)
  moreover have "\<forall>m. m \<noteq> a \<longrightarrow> set (adjacency rm m) \<subseteq> set (adjacency rm' m)"
    using adj by (simp add: r prune_other)
  ultimately show ?thesis by blast
qed

theorem updateAdjacency_prunes_own_map_witness:
  "updateAdjacency ss_unit (IntegralEdgeCostComputer ss_unit (1 / 2)) rm_three 0
     = Inr rm_three_pruned
   \<and> (2, 1) \<in> set (adjacency rm_three_pruned 0) \<and> \<not> dead rm_three_pruned 1
   \<and> (0 < next_edge_addr rm_three \<and> edge_mem rm_three_pruned 0 = edge_mem rm_three 0)
   \<and> ((1::nat) \<noteq> 0 \<and> (0, 0) \<in> set (adjacency rm_three 1)
        \<and> (0, 0) \<in> set (adjacency rm_three_pruned 1))"
proof -
  have run: "updateAdjacency ss_unit (IntegralEdgeCostComputer ss_unit (1 / 2)) rm_three 0
     = Inr rm_three_pruned"
    by (simp add: updateAdjacency_def prune_def dead_def rm_three_def
        rm_three_pruned_def new_Node_def new_Edge_def)
  have own: "(2, 1) \<in> set (adjacency rm_three_pruned 0)"
    by (simp add: adjacency_def rm_three_pruned_def)
  have nx: "0 < next_edge_addr rm_three" by (simp add: rm_three_def)
  have other: "(0, 0) \<in> set (adjacency rm_three 1)"
    by (simp add: adjacency_def rm_three_def)
  from updateAdjacency_prunes_own_map [OF run] own nx other run
  show ?thesis by auto
qed

section \<open>Facts about the goal set\<close>

lemma map_of_append_new: "map_of m k = None \<Longrightarrow> map_of (m @ [(k, v)]) k = Some v"
  by (induction m) auto

lemma map_erase_absent: "map_of m k = None \<Longrightarrow> map_erase k m = m"
  by (induction m) (auto simp: map_erase_def split: if_splits)

lemma map_erase_append_new: "map_of m k = None \<Longrightarrow> map_erase k (m @ [(k, v)]) = m"
  using map_erase_absent [of m k] by (simp add: map_erase_def)

lemma map_of_map_erase: "map_of (map_erase k m) k' = (if k' = k then None else map_of m k')"
  by (induction m) (auto simp: map_erase_def)

lemma addGoal_result:
  "addGoal (gs, rm) g =
     Inr (\<lparr> gs_goals = map_insert (goal_ident g) g (gs_goals gs),
            gs_goal_id_to_roadmap_id =
              (gs_goal_id_to_roadmap_id gs)(goal_ident g \<mapsto> rm_node_id_counter rm),
            gs_roadmap_id_to_goal_id =
              (gs_roadmap_id_to_goal_id gs)(rm_node_id_counter rm \<mapsto> goal_ident g) \<rparr>,
          snd (addNode rm (goal_config g)))"
  by (simp add: addGoal_def addNode_def Let_def new_Node_def)

text \<open>
  The invariant holds for a new goal set and is kept by \<open>addGoal\<close> (as long as the 32-bit
  id counter of the roadmap does not wrap around) and by \<open>removeGoal\<close>.
\<close>

lemma goalset_inv_new: "goalset_inv new_MultiGraspGoalSet rm"
  by (simp add: goalset_inv_def new_MultiGraspGoalSet_def)

lemma word_less_succ: "(x::uint) < c \<or> x = c \<Longrightarrow> c + 1 \<noteq> 0 \<Longrightarrow> x < c + 1"
  by (metis (no_types, lifting) add.commute add.right_inverse
    inc_less_eq_self_iff_eq linorder_not_less order_le_less_trans
    word_le_less_eq)

lemma goalset_inv_addGoal:
  assumes inv: "goalset_inv gs rm" and nw: "rm_node_id_counter rm + 1 \<noteq> 0"
      and add: "addGoal (gs, rm) g = Inr (gs1, rm1)"
  shows "goalset_inv gs1 rm1"
proof -
  from add have gs1: "gs1 = \<lparr> gs_goals = map_insert (goal_ident g) g (gs_goals gs),
            gs_goal_id_to_roadmap_id =
              (gs_goal_id_to_roadmap_id gs)(goal_ident g \<mapsto> rm_node_id_counter rm),
            gs_roadmap_id_to_goal_id =
              (gs_roadmap_id_to_goal_id gs)(rm_node_id_counter rm \<mapsto> goal_ident g) \<rparr>"
    and rm1: "rm_node_id_counter rm1 = rm_node_id_counter rm + 1"
    by (auto simp: addGoal_result addNode_def Let_def)
  have keys: "\<forall>k. (gs_goal_id_to_roadmap_id gs1 k = None) = (map_of (gs_goals gs1) k = None)"
    using inv by (auto simp: gs1 goalset_inv_def map_insert_def)
  have "\<forall>rid. gs_roadmap_id_to_goal_id gs1 rid \<noteq> None \<longrightarrow> rid < rm_node_id_counter rm1"
  proof (intro allI impI)
    fix rid assume "gs_roadmap_id_to_goal_id gs1 rid \<noteq> None"
    then have "rid < rm_node_id_counter rm \<or> rid = rm_node_id_counter rm"
      using inv by (auto simp: gs1 goalset_inv_def split: if_splits)
    then show "rid < rm_node_id_counter rm1"
      unfolding rm1 using nw by (rule word_less_succ)
  qed
  with keys show ?thesis by (simp add: goalset_inv_def)
qed

lemma goalset_inv_removeGoal:
  assumes inv: "goalset_inv gs rm" and rem: "removeGoal gs gid = Inr gs1"
  shows "goalset_inv gs1 rm"
  using assms
  by (auto simp: goalset_inv_def removeGoal_def map_of_map_erase
      split: option.splits if_splits)

text \<open>
  Claim C8. For a goal whose id is not in the goal set, \<open>addGoal\<close> followed by
  \<open>removeGoals\<close> of its id gives back the goal map and both cross-mappings, in every
  state of the goal set that satisfies its invariant. (The roadmap keeps the node that
  \<open>addGoal\<close> inserted; it is not part of the claim.)
\<close>

theorem addGoal_removeGoals_restores:
  assumes inv: "goalset_inv gs rm"
      and new: "map_of (gs_goals gs) (goal_ident g) = None"
      and add: "addGoal (gs, rm) g = Inr (gs1, rm1)"
  shows "removeGoals gs1 [goal_ident g] = Inr gs"
proof -
  let ?c = "rm_node_id_counter rm"
  from inv new have g2r: "gs_goal_id_to_roadmap_id gs (goal_ident g) = None"
    by (simp add: goalset_inv_def)
  from inv have r2g: "gs_roadmap_id_to_goal_id gs ?c = None"
    by (auto simp: goalset_inv_def)
  from add new have gs1: "gs1 = \<lparr> gs_goals = gs_goals gs @ [(goal_ident g, g)],
            gs_goal_id_to_roadmap_id = (gs_goal_id_to_roadmap_id gs)(goal_ident g \<mapsto> ?c),
            gs_roadmap_id_to_goal_id = (gs_roadmap_id_to_goal_id gs)(?c \<mapsto> goal_ident g) \<rparr>"
    by (simp add: addGoal_result map_insert_def)
  have look: "map_of (gs_goals gs1) (goal_ident g) = Some g"
    using new by (simp only: gs1 MultiGraspGoalSet.simps map_of_append_new)
  have erase: "map_erase (goal_ident g) (gs_goals gs1) = gs_goals gs"
    using new by (simp only: gs1 MultiGraspGoalSet.simps map_erase_append_new)
  have "removeGoal gs1 (goal_ident g) = Inr gs"
    using g2r r2g new
    by (simp add: removeGoal_def look erase) (simp add: gs1 map_erase_append_new fun_upd_idem)
  then show ?thesis by simp
qed

theorem addGoal_removeGoals_restores_witness:
  "goalset_inv gs_one rm_one
   \<and> map_of (gs_goals gs_one) (goal_ident goal8) = None
   \<and> addGoal (gs_one, rm_one) goal8 =
       Inr (\<lparr> gs_goals = [(7, goal7), (8, goal8)], gs_goal_id_to_roadmap_id = [7 \<mapsto> 0, 8 \<mapsto> 1],
              gs_roadmap_id_to_goal_id = [0 \<mapsto> 7, 1 \<mapsto> 8] \<rparr>,
            snd (addNode rm_one (goal_config goal8)))
   \<and> removeGoals \<lparr> gs_goals = [(7, goal7), (8, goal8)],
         gs_goal_id_to_roadmap_id = [7 \<mapsto> 0, 8 \<mapsto> 1],
         gs_roadmap_id_to_goal_id = [0 \<mapsto> 7, 1 \<mapsto> 8] \<rparr> [goal_ident goal8] = Inr gs_one"
proof -
  have inv: "goalset_inv gs_one rm_one"
    by (simp add: goalset_inv_def gs_one_def rm_one_def rm_empty_def)
  have new: "map_of (gs_goals gs_one) (goal_ident goal8) = None"
    by (simp add: gs_one_def goal8_def)
  have add: "addGoal (gs_one, rm_one) goal8 =
       Inr (\<lparr> gs_goals = [(7, goal7), (8, goal8)], gs_goal_id_to_roadmap_id = [7 \<mapsto> 0, 8 \<mapsto> 1],
              gs_roadmap_id_to_goal_id = [0 \<mapsto> 7, 1 \<mapsto> 8] \<rparr>,
            snd (addNode rm_one (goal_config goal8)))"
    by (simp add: addGoal_result gs_one_def rm_one_def rm_empty_def goal8_def map_insert_def)
  from addGoal_removeGoals_restores [OF inv new add] inv new add
  show ?thesis by simp
qed

text \<open>
  Claim C7. Inserting a grasp under the id of a stored grasp raises a logic error.
  Inserting a goal under the id of a stored goal does not: \<open>addGoal\<close> has no check,
  \<open>_goals.insert\<close> keeps the stored goal, a second roadmap node is added, and the id is
  mapped to the new node. Adding \<open>goal7_again\<close> to a goal set that holds \<open>goal7\<close> returns
  normally, and the goal stored under the id 7 is still \<open>goal7\<close>.
\<close>

theorem addGoal_accepts_duplicate_id:
  "addGrasp [7 \<mapsto> grasp7] grasp7 = Inl LogicError
   \<and> addGoal (new_MultiGraspGoalSet, rm_empty) goal7 = Inr (gs_one, rm_one)
   \<and> goal_ident goal7_again = goal_ident goal7
   \<and> addGoal (gs_one, rm_one) goal7_again = Inr (gs_dup, rm_dup)
   \<and> getGoal gs_dup 7 = Inr goal7"
  by (simp add: addGrasp_def grasp7_def addGoal_result new_MultiGraspGoalSet_def rm_empty_def
      goal7_def goal7_again_def gs_one_def rm_one_def gs_dup_def rm_dup_def map_insert_def
      addNode_def Let_def getGoal_def fun_upd_twist)

text \<open>
  What the missing check leads to: once the goal 7 is removed from \<open>gs_dup\<close>, the first
  node is still mapped to the goal id 7, and \<open>isGoal\<close> on it looks the removed goal up
  with \<open>_goals.at\<close>, which throws.
\<close>

lemma duplicate_goal_breaks_isGoal:
  "removeGoal gs_dup 7
     = Inr \<lparr> gs_goals = [], gs_goal_id_to_roadmap_id = Map.empty,
             gs_roadmap_id_to_goal_id = [0 \<mapsto> 7] \<rparr>
   \<and> isGoal ss_unit (\<lparr> gs_goals = [], gs_goal_id_to_roadmap_id = Map.empty,
             gs_roadmap_id_to_goal_id = [0 \<mapsto> 7] \<rparr>, rm_dup) 0 1 = Inl OutOfRange"
  by (simp add: removeGoal_def gs_dup_def map_erase_def isGoal_def isValid_for_grasp_def
      isValid_def Let_def rm_dup_def rm_empty_def new_Node_def ss_unit_def)

section \<open>Facts about node deletion\<close>









lemma ln2_half: "1 / 2 \<le> ln (2::real)"
proof -
  have "(exp (1 / 2 :: real))\<^sup>2 = exp 1"
    by (simp add: power2_eq_square exp_add [symmetric])
  also have "\<dots> \<le> 3" by (rule exp_le)
  also have "\<dots> \<le> (2::real)\<^sup>2" by simp
  finally have "exp (1 / 2 :: real) \<le> 2" by (rule power2_le_imp_le) simp
  moreover have "(1 / 2 \<le> ln (2::real)) = (exp (1 / 2) \<le> (2::real))"
    by (rule ln_ge_iff) simp
  ultimately show ?thesis by blast
qed

lemma ln3_bounds: "1 / 2 \<le> ln (3::real) \<and> ln (3::real) \<le> 2"
proof
  have "ln (2::real) \<le> ln 3" by simp
  with ln2_half show "1 / 2 \<le> ln (3::real)" by linarith
  show "ln (3::real) \<le> 2" using ln_le_minus_one [of "3::real"] by simp
qed

lemma radius2: "(1::real) \<le> 5 * ln 2"
  using ln2_half by simp

lemma radius3: "\<not> 30 \<le> ln (3::real)" "3 \<le> 10 * ln (3::real)"
  using ln3_bounds by simp_all

text \<open>
  \<open>rm_stale\<close> is what the roadmap's own operations lead to: the adjacency of node 0 is
  refreshed, its edge to node 1 is evaluated and found in collision, the next refresh
  prunes it from node 0 only, the roadmap is densified, and the following refresh of node 0
  creates a new edge to node 1, whose \<open>insert\<close> into the adjacency map of node 1 finds the
  key taken by the old edge.
\<close>

lemma rm_stale_reachable:
  "\<exists>r1 r2 r3 r4.
      updateAdjacency ss_wall (IntegralEdgeCostComputer ss_wall (1 / 2))
        (snd (addNode (snd (addNode (rm_empty\<lparr> rm_gamma_prm := 10 \<rparr>) [0])) [1])) 0 = Inr r1
    \<and> computeCost (IntegralEdgeCostComputer ss_wall (1 / 2)) r1 0 = Inr ((False, PInf), r2)
    \<and> updateAdjacency ss_wall (IntegralEdgeCostComputer ss_wall (1 / 2)) r2 0 = Inr r3
    \<and> densify si_line r3 [[1]] = Inr r4
    \<and> updateAdjacency ss_wall (IntegralEdgeCostComputer ss_wall (1 / 2)) r4 0 = Inr rm_stale"
proof -
  let ?ecc = "IntegralEdgeCostComputer ss_wall (1 / 2)"
  let ?r1 = "\<lparr> node_mem = [0 \<mapsto> (new_Node 0 [0])\<lparr> edges := [(1, 0)], densification_gen := 1 \<rparr>,
                    1 \<mapsto> (new_Node 1 [1])\<lparr> edges := [(0, 0)] \<rparr>],
       edge_mem = [0 \<mapsto> new_Edge 0 1 1],
       next_node_addr = 2, next_edge_addr = 1,
       rm_nodes = [0 \<mapsto> 0, 1 \<mapsto> 1], rm_nn = [0, 1], rm_node_id_counter = 2,
       rm_densification_gen = 1, rm_gamma_prm = 10, rm_dimension = 1 \<rparr>"
  let ?r2 = "?r1\<lparr> edge_mem := [0 \<mapsto> (new_Edge 0 1 1)\<lparr> base_cost := PInf, base_evaluated := True \<rparr>] \<rparr>"
  let ?r3 = "?r2\<lparr> node_mem := [0 \<mapsto> (new_Node 0 [0])\<lparr> edges := [], densification_gen := 1 \<rparr>,
                    1 \<mapsto> (new_Node 1 [1])\<lparr> edges := [(0, 0)] \<rparr>] \<rparr>"
  let ?r4 = "?r3\<lparr> node_mem := [0 \<mapsto> (new_Node 0 [0])\<lparr> edges := [], densification_gen := 1 \<rparr>,
                    1 \<mapsto> (new_Node 1 [1])\<lparr> edges := [(0, 0)] \<rparr>,
                    2 \<mapsto> new_Node 2 [100]],
                next_node_addr := 3, rm_nodes := [0 \<mapsto> 0, 1 \<mapsto> 1, 2 \<mapsto> 2],
                rm_nn := [0, 1, 2], rm_node_id_counter := 3, rm_densification_gen := 2 \<rparr>"
  have s1: "updateAdjacency ss_wall ?ecc
        (snd (addNode (snd (addNode (rm_empty\<lparr> rm_gamma_prm := 10 \<rparr>) [0])) [1])) 0 = Inr ?r1"
    by (simp add: updateAdjacency_def addNode_def rm_empty_def Let_def new_Node_def
      nearestR_def ss_wall_def cSpaceDistance_def vsub_def vnorm_single radius2
      connect_def prune_def dead_def map_insert_def new_Edge_def
      IntegralEdgeCostComputer_def IECC_lowerBound_def fun_upd_twist)
  have s2: "computeCost ?ecc ?r1 0 = Inr ((False, PInf), ?r2)"
    by (simp add: computeCost_def IntegralEdgeCostComputer_def IECC_cost_def
        IECC_integrateCosts_def vsub_def vnorm_single num_steps_of_def vaxpy_def vdiv_def
        numeral_2_eq_2 ss_wall_def blocked_def new_Node_def new_Edge_def)
  have s3: "updateAdjacency ss_wall ?ecc ?r2 0 = Inr ?r3"
    by (simp add: updateAdjacency_def prune_def dead_def new_Node_def new_Edge_def fun_upd_twist)
  have s4: "densify si_line ?r3 [[1]] = Inr ?r4"
    by (simp add: densify_def scaleToLimits_def si_line_def addNode_def Let_def new_Node_def
        new_Edge_def fun_upd_twist)
  have s5: "updateAdjacency ss_wall ?ecc ?r4 0 = Inr rm_stale"
    by (simp add: updateAdjacency_def Let_def new_Node_def rm_stale_def
      nearestR_def ss_wall_def cSpaceDistance_def vsub_def vnorm_single radius3
      connect_def prune_def dead_def map_insert_def new_Edge_def
      IntegralEdgeCostComputer_def IECC_lowerBound_def fun_upd_twist)
  from s1 s2 s3 s4 s5 show ?thesis by blast
qed




section \<open>Facts about the goal heuristic\<close>

lemma apply_goal_op_frame:
  assumes "apply_goal_op H p op = Inr H'"
  shows "next_free H' = next_free H
       \<and> (\<forall>a g. objects H a = Some (GnatObj g) \<longrightarrow> objects H' a = Some (GnatObj g))
       \<and> (\<forall>a h. objects H a = Some (GoalDistanceObj h) \<longrightarrow> objects H' a = Some (GoalDistanceObj h))"
  using assms
  by (cases op)
     (auto simp: apply_goal_op_def heap_addGoal_def heap_removeGoal_def
        split: option.splits object.splits sum.splits)

lemma apply_goal_ops_frame:
  "apply_goal_ops H p ops = Inr H' \<Longrightarrow>
     (\<forall>a g. objects H a = Some (GnatObj g) \<longrightarrow> objects H' a = Some (GnatObj g))
     \<and> (\<forall>a h. objects H a = Some (GoalDistanceObj h) \<longrightarrow> objects H' a = Some (GoalDistanceObj h))"
proof (induction ops arbitrary: H)
  case Nil
  then show ?case by simp
next
  case (Cons op ops)
  from Cons.prems obtain H1 where o: "apply_goal_op H p op = Inr H1"
    and r: "apply_goal_ops H1 p ops = Inr H'"
    by (auto split: sum.splits)
  from apply_goal_op_frame [OF o] Cons.IH [OF r] show ?case by blast
qed

lemma add_goals_step_new:
  assumes inv: "gnats_fresh h H done n"
      and none: "map_of (goals_of_grasp h) (grasp_id goal) = None"
  shows "gnats_fresh
           (h\<lparr> all_goals := all_goals h @ [goal],
               goals_of_grasp := goals_of_grasp h @ [(grasp_id goal, next_free H)] \<rparr>)
           (H\<lparr> objects := (objects H)(next_free H \<mapsto> GnatObj [goal]),
               next_free := Suc (next_free H) \<rparr>)
           (done @ [goal]) n"
proof -
  let ?m = "goals_of_grasp h"
  from inv have ag: "all_goals h = done" and gh: "gnats_hold h H done" and n: "n \<le> next_free H"
    and rng: "\<forall>g a. map_of ?m g = Some a \<longrightarrow> n \<le> a \<and> a < next_free H"
    and inj: "\<forall>g g' a. map_of ?m g = Some a \<and> map_of ?m g' = Some a \<longrightarrow> g = g'"
    and cov: "\<forall>x \<in> set done. map_of ?m (grasp_id x) \<noteq> None"
    by (auto simp: gnats_fresh_def)
  from cov none have empty: "filter (\<lambda>x. grasp_id x = grasp_id goal) done = []"
    by (auto simp: filter_empty_conv)
  have look: "\<And>g. map_of (?m @ [(grasp_id goal, next_free H)]) g
      = (if g = grasp_id goal then Some (next_free H) else map_of ?m g)"
    using none by (auto simp: map_add_def split: option.splits)
  have below: "\<And>g a. map_of ?m g = Some a \<Longrightarrow> n \<le> a \<and> a < next_free H"
    using rng by blast
  have notnew: "\<And>g. map_of ?m g \<noteq> Some (next_free H)"
    using below by fastforce
  let ?h' = "h\<lparr> all_goals := all_goals h @ [goal],
               goals_of_grasp := goals_of_grasp h @ [(grasp_id goal, next_free H)] \<rparr>"
  let ?H' = "H\<lparr> objects := (objects H)(next_free H \<mapsto> GnatObj [goal]),
               next_free := Suc (next_free H) \<rparr>"
  have c1: "all_goals ?h' = done @ [goal]" using ag by simp
  have c2: "gnats_hold ?h' ?H' (done @ [goal])"
    unfolding gnats_hold_def
  proof (intro allI impI)
    fix g a assume "map_of (goals_of_grasp ?h') g = Some a"
    then have l: "(if g = grasp_id goal then Some (next_free H) else map_of ?m g) = Some a"
      by (simp add: look del: map_of_append)
    show "objects ?H' a = Some (GnatObj (filter (\<lambda>x. grasp_id x = g) (done @ [goal])))"
    proof (cases "g = grasp_id goal")
      case True
      with l have "a = next_free H" by simp
      with True empty show ?thesis by simp
    next
      case False
      with l have m: "map_of ?m g = Some a" by simp
      with notnew have "a \<noteq> next_free H" by metis
      moreover from gh m have "objects H a = Some (GnatObj (filter (\<lambda>x. grasp_id x = g) done))"
        by (simp add: gnats_hold_def)
      ultimately show ?thesis using False by simp
    qed
  qed
  have c3: "n \<le> next_free ?H'" using n by simp
  have c4: "\<forall>g a. map_of (goals_of_grasp ?h') g = Some a \<longrightarrow> n \<le> a \<and> a < next_free ?H'"
  proof (intro allI impI)
    fix g a assume "map_of (goals_of_grasp ?h') g = Some a"
    then have l: "(if g = grasp_id goal then Some (next_free H) else map_of ?m g) = Some a"
      by (simp add: look del: map_of_append)
    show "n \<le> a \<and> a < next_free ?H'"
    proof (cases "g = grasp_id goal")
      case True
      with l n show ?thesis by simp
    next
      case False
      with l below [of g a] show ?thesis by simp
    qed
  qed
  have c5: "\<forall>g g' a. map_of (goals_of_grasp ?h') g = Some a
      \<and> map_of (goals_of_grasp ?h') g' = Some a \<longrightarrow> g = g'"
  proof (intro allI impI)
    fix g g' a
    assume "map_of (goals_of_grasp ?h') g = Some a \<and> map_of (goals_of_grasp ?h') g' = Some a"
    then have l: "(if g = grasp_id goal then Some (next_free H) else map_of ?m g) = Some a"
      and l': "(if g' = grasp_id goal then Some (next_free H) else map_of ?m g') = Some a"
      by (simp_all add: look del: map_of_append)
    show "g = g'"
    proof (cases "g = grasp_id goal")
      case True
      with l have "a = next_free H" by simp
      with l' notnew [of g'] have "g' = grasp_id goal" by (simp split: if_splits)
      with True show ?thesis by simp
    next
      case False
      with l have m: "map_of ?m g = Some a" by simp
      with notnew [of g] have "a \<noteq> next_free H" by auto
      with l' have "map_of ?m g' = Some a" by (simp split: if_splits)
      with m inj show ?thesis by blast
    qed
  qed
  have c6: "\<forall>x \<in> set (done @ [goal]). map_of (goals_of_grasp ?h') (grasp_id x) \<noteq> None"
    using cov by (auto simp: look simp del: map_of_append)
  from c1 c2 c3 c4 c5 c6 show ?thesis
    unfolding gnats_fresh_def by blast
qed


lemma add_goals_step_old:
  assumes inv: "gnats_fresh h H done n"
      and some: "map_of (goals_of_grasp h) (grasp_id goal) = Some a"
  shows "objects H a = Some (GnatObj (filter (\<lambda>x. grasp_id x = grasp_id goal) done))
       \<and> gnats_fresh (h\<lparr> all_goals := all_goals h @ [goal] \<rparr>)
           (H\<lparr> objects := (objects H)
                 (a \<mapsto> GnatObj (filter (\<lambda>x. grasp_id x = grasp_id goal) done @ [goal])) \<rparr>)
           (done @ [goal]) n"
proof -
  let ?m = "goals_of_grasp h"
  from inv have ag: "all_goals h = done" and gh: "gnats_hold h H done" and n: "n \<le> next_free H"
    and rng: "\<forall>g a. map_of ?m g = Some a \<longrightarrow> n \<le> a \<and> a < next_free H"
    and inj: "\<forall>g g' a. map_of ?m g = Some a \<and> map_of ?m g' = Some a \<longrightarrow> g = g'"
    and cov: "\<forall>x \<in> set done. map_of ?m (grasp_id x) \<noteq> None"
    by (auto simp: gnats_fresh_def)
  let ?h' = "h\<lparr> all_goals := all_goals h @ [goal] \<rparr>"
  let ?H' = "H\<lparr> objects := (objects H)
                 (a \<mapsto> GnatObj (filter (\<lambda>x. grasp_id x = grasp_id goal) done @ [goal])) \<rparr>"
  from gh some have cell: "objects H a = Some (GnatObj (filter (\<lambda>x. grasp_id x = grasp_id goal) done))"
    by (simp add: gnats_hold_def)
  have c2: "gnats_hold ?h' ?H' (done @ [goal])"
    unfolding gnats_hold_def
  proof (intro allI impI)
    fix g b assume "map_of (goals_of_grasp ?h') g = Some b"
    then have m: "map_of ?m g = Some b" by simp
    show "objects ?H' b = Some (GnatObj (filter (\<lambda>x. grasp_id x = g) (done @ [goal])))"
    proof (cases "b = a")
      case True
      with m some inj have "g = grasp_id goal" by blast
      with True show ?thesis by simp
    next
      case False
      with m some have "g \<noteq> grasp_id goal" by auto
      moreover from gh m have "objects H b = Some (GnatObj (filter (\<lambda>x. grasp_id x = g) done))"
        by (simp add: gnats_hold_def)
      ultimately show ?thesis using False by simp
    qed
  qed
  have c6: "\<forall>x \<in> set (done @ [goal]). map_of (goals_of_grasp ?h') (grasp_id x) \<noteq> None"
    using cov some by auto
  from ag c2 n rng inj c6 have "gnats_fresh ?h' ?H' (done @ [goal]) n"
    unfolding gnats_fresh_def by simp
  with cell show ?thesis by blast
qed

lemma add_goals_invariant:
  "gnats_fresh h H done n \<Longrightarrow>
     \<exists>h' H'. add_goals goals h H = Inr (h', H')
        \<and> gnats_fresh h' H' (done @ goals) n
        \<and> (\<forall>a < n. objects H' a = objects H a)
        \<and> quality_normalizer h' = quality_normalizer h
        \<and> goal_distance h' = goal_distance h
        \<and> max_quality h' = max_quality h"
proof (induction goals arbitrary: h H "done")
  case Nil
  then show ?case by simp
next
  case (Cons goal goals)
  show ?case
  proof (cases "map_of (goals_of_grasp h) (grasp_id goal)")
    case None
    let ?h1 = "h\<lparr> all_goals := all_goals h @ [goal],
               goals_of_grasp := goals_of_grasp h @ [(grasp_id goal, next_free H)] \<rparr>"
    let ?H1 = "H\<lparr> objects := (objects H)(next_free H \<mapsto> GnatObj [goal]),
               next_free := Suc (next_free H) \<rparr>"
    from add_goals_step_new [OF Cons.prems None]
    have inv1: "gnats_fresh ?h1 ?H1 (done @ [goal]) n" .
    from Cons.prems have n: "n \<le> next_free H" by (simp add: gnats_fresh_def)
    from Cons.IH [OF inv1] obtain h' H' where
      run: "add_goals goals ?h1 ?H1 = Inr (h', H')"
      and r: "gnats_fresh h' H' ((done @ [goal]) @ goals) n"
        "\<forall>a < n. objects H' a = objects ?H1 a"
        "quality_normalizer h' = quality_normalizer ?h1"
        "goal_distance h' = goal_distance ?h1"
        "max_quality h' = max_quality ?h1"
      by blast
    from run None have "add_goals (goal # goals) h H = Inr (h', H')"
      by (simp add: Let_def map_insert_def)
    moreover from r(2) n have "\<forall>a < n. objects H' a = objects H a" by auto
    ultimately show ?thesis using r by auto
  next
    case (Some a)
    let ?h1 = "h\<lparr> all_goals := all_goals h @ [goal] \<rparr>"
    let ?H1 = "H\<lparr> objects := (objects H)
                 (a \<mapsto> GnatObj (filter (\<lambda>x. grasp_id x = grasp_id goal) done @ [goal])) \<rparr>"
    from add_goals_step_old [OF Cons.prems Some]
    have cell: "objects H a = Some (GnatObj (filter (\<lambda>x. grasp_id x = grasp_id goal) done))"
      and inv1: "gnats_fresh ?h1 ?H1 (done @ [goal]) n"
      by blast+
    from Cons.prems Some have an: "n \<le> a" by (auto simp: gnats_fresh_def)
    from Cons.IH [OF inv1] obtain h' H' where
      run: "add_goals goals ?h1 ?H1 = Inr (h', H')"
      and r: "gnats_fresh h' H' ((done @ [goal]) @ goals) n"
        "\<forall>a < n. objects H' a = objects ?H1 a"
        "quality_normalizer h' = quality_normalizer ?h1"
        "goal_distance h' = goal_distance ?h1"
        "max_quality h' = max_quality ?h1"
      by blast
    from run Some cell have "add_goals (goal # goals) h H = Inr (h', H')"
      by (simp add: Let_def)
    moreover from r(2) an have "\<forall>a < n. objects H' a = objects H a" by auto
    ultimately show ?thesis using r by auto
  qed
qed

lemma new_MGGoalDistance_result:
  assumes gs: "objects H0 goal_set = Some (GoalSetObj gs0 roadmap)"
      and new: "new_MGGoalDistance H0 goal_set pc lam = Inr (this, H1)"
  shows "\<exists>h. objects H1 this = Some (GoalDistanceObj h)
           \<and> all_goals h = getGoals gs0
           \<and> gnats_hold h H1 (getGoals gs0)
           \<and> (\<forall>x \<in> set (getGoals gs0). map_of (goals_of_grasp h) (grasp_id x) \<noteq> None)
           \<and> goal_distance h = goal_distance (init_MGGoalDistance (getGoals gs0) pc lam)
           \<and> max_quality h = max_quality (init_MGGoalDistance (getGoals gs0) pc lam)"
proof -
  let ?goals = "getGoals gs0"
  let ?h0 = "init_MGGoalDistance ?goals pc lam"
  let ?Hs = "H0\<lparr> next_free := Suc (next_free H0) \<rparr>"
  have h0: "all_goals ?h0 = [] \<and> goals_of_grasp ?h0 = []"
    by (simp add: init_MGGoalDistance_def Let_def)
  have inv0: "gnats_fresh ?h0 ?Hs [] (Suc (next_free H0))"
    by (simp add: gnats_fresh_def gnats_hold_def h0)
  from add_goals_invariant [OF inv0, of ?goals] obtain h H' where
    run: "add_goals ?goals ?h0 ?Hs = Inr (h, H')"
    and inv: "gnats_fresh h H' ?goals (Suc (next_free H0))"
    and gd: "goal_distance h = goal_distance ?h0"
    and mq: "max_quality h = max_quality ?h0"
    by auto
  from new gs run have "Inr (next_free H0,
      H'\<lparr> objects := (objects H')(next_free H0 \<mapsto> GoalDistanceObj h) \<rparr>) = Inr (this, H1)"
    by (auto simp add: new_MGGoalDistance_def Let_def)
  hence tn: "this = next_free H0"
    and H1: "H1 = H'\<lparr> objects := (objects H')(next_free H0 \<mapsto> GoalDistanceObj h) \<rparr>"
    by auto
  from inv have ag: "all_goals h = ?goals" and gh: "gnats_hold h H' ?goals"
    and rng: "\<forall>g a. map_of (goals_of_grasp h) g = Some a \<longrightarrow> Suc (next_free H0) \<le> a"
    and cov: "\<forall>x \<in> set ?goals. map_of (goals_of_grasp h) (grasp_id x) \<noteq> None"
    by (auto simp: gnats_fresh_def)
  have "gnats_hold h H1 ?goals"
    unfolding gnats_hold_def
  proof (intro allI impI)
    fix g a assume m: "map_of (goals_of_grasp h) g = Some a"
    with rng have "a \<noteq> next_free H0" by fastforce
    with gh m show "objects H1 a = Some (GnatObj (filter (\<lambda>x. grasp_id x = g) ?goals))"
      by (simp add: H1 gnats_hold_def)
  qed
  with ag gd mq cov show ?thesis by (simp add: tn H1)
qed

lemma nearest_goal_cong:
  "goal_distance h = goal_distance h' \<Longrightarrow> nearest_goal h gnat q = nearest_goal h' gnat q"
  by (simp add: nearest_goal_def split: list.splits)

lemma dummy_goal_cong:
  "max_quality h = max_quality h' \<Longrightarrow> dummy_goal h a = dummy_goal h' a"
  by (simp add: dummy_goal_def)

text \<open>
  Claim C10. The constructor of \<open>MGGoalDistance\<close> copies the goals of the goal set into
  structures of its own, so what \<open>costToGo\<close> and \<open>getGoalCost\<close> return is what the goal
  set held at construction and stays so. Let the object at \<open>this\<close> be constructed from the
  goal set at \<open>goal_set\<close>, which holds \<open>gs0\<close> then, and let any sequence of \<open>addGoal\<close> and
  \<open>removeGoal\<close> on that goal set follow. Then for every configuration, grasp id and quality
  \<open>costToGo\<close>, \<open>costToGo\<close> for a grasp and \<open>getGoalCost\<close> return after the sequence what they
  returned before it, and that is: the distance to the nearest of the goals of \<open>gs0\<close>, the
  distance to the nearest of the goals of \<open>gs0\<close> that have the grasp (a logic error if there
  is none), and the scaled difference to the greatest quality in \<open>gs0\<close>.
\<close>

theorem heuristic_unaffected_by_goal_ops:
  assumes gs: "objects H0 goal_set = Some (GoalSetObj gs0 roadmap)"
      and new: "new_MGGoalDistance H0 goal_set pc lam = Inr (this, H1)"
      and ops: "apply_goal_ops H1 goal_set ops = Inr H2"
  shows "costToGo H2 this a = costToGo H1 this a
       \<and> costToGo_grasp H2 this a gid = costToGo_grasp H1 this a gid
       \<and> getGoalCost H2 this q = getGoalCost H1 this q
       \<and> costToGo H1 this a =
           nearest_goal (init_MGGoalDistance (getGoals gs0) pc lam) (getGoals gs0)
             (dummy_goal (init_MGGoalDistance (getGoals gs0) pc lam) a)
       \<and> costToGo_grasp H1 this a gid =
           nearest_goal (init_MGGoalDistance (getGoals gs0) pc lam)
             (filter (\<lambda>x. grasp_id x = gid) (getGoals gs0))
             (dummy_goal (init_MGGoalDistance (getGoals gs0) pc lam) a)
       \<and> getGoalCost H1 this q =
           Inr (case fold_quality max (getGoals gs0) of None \<Rightarrow> None
                | Some m \<Rightarrow>
                    Some (scaled_lambda (goal_distance (init_MGGoalDistance (getGoals gs0) pc lam))
                          * (m - q)))"
proof -
  let ?goals = "getGoals gs0"
  let ?h0 = "init_MGGoalDistance ?goals pc lam"
  from new_MGGoalDistance_result [OF gs new] obtain h where
    obj1: "objects H1 this = Some (GoalDistanceObj h)"
    and ag: "all_goals h = ?goals"
    and gh: "gnats_hold h H1 ?goals"
    and cov: "\<forall>x \<in> set ?goals. map_of (goals_of_grasp h) (grasp_id x) \<noteq> None"
    and gd: "goal_distance h = goal_distance ?h0"
    and mq: "max_quality h = max_quality ?h0"
    by blast
  from apply_goal_ops_frame [OF ops] have
    keep_gnat: "\<And>a g. objects H1 a = Some (GnatObj g) \<Longrightarrow> objects H2 a = Some (GnatObj g)"
    and keep_this: "\<And>a h. objects H1 a = Some (GoalDistanceObj h)
                      \<Longrightarrow> objects H2 a = Some (GoalDistanceObj h)"
    by blast+
  from keep_this [OF obj1] have obj2: "objects H2 this = Some (GoalDistanceObj h)" .
  have mq0: "max_quality ?h0 = fold_quality max ?goals"
    by (simp add: init_MGGoalDistance_def Let_def)
  have c1: "costToGo H2 this a = costToGo H1 this a"
    by (simp add: costToGo_def obj1 obj2)
  have c3: "getGoalCost H2 this q = getGoalCost H1 this q"
    by (simp add: getGoalCost_def obj1 obj2)
  have c4: "costToGo H1 this a = nearest_goal ?h0 ?goals (dummy_goal ?h0 a)"
    using nearest_goal_cong [OF gd] dummy_goal_cong [OF mq]
    by (simp add: costToGo_def obj1 ag)
  have c6: "getGoalCost H1 this q =
           Inr (case fold_quality max ?goals of None \<Rightarrow> None
                | Some m \<Rightarrow> Some (scaled_lambda (goal_distance ?h0) * (m - q)))"
    using gd mq mq0 by (simp add: getGoalCost_def obj1 split: option.splits)
  have c25: "costToGo_grasp H2 this a gid = costToGo_grasp H1 this a gid
      \<and> costToGo_grasp H1 this a gid =
          nearest_goal ?h0 (filter (\<lambda>x. grasp_id x = gid) ?goals) (dummy_goal ?h0 a)"
  proof (cases "map_of (goals_of_grasp h) gid")
    case None
    with cov have "filter (\<lambda>x. grasp_id x = gid) ?goals = []"
      by (auto simp: filter_empty_conv)
    with None show ?thesis
      by (simp add: costToGo_grasp_def obj1 obj2 nearest_goal_def)
  next
    case (Some g)
    with gh have cell1: "objects H1 g = Some (GnatObj (filter (\<lambda>x. grasp_id x = gid) ?goals))"
      by (simp add: gnats_hold_def)
    from keep_gnat [OF cell1]
    have cell2: "objects H2 g = Some (GnatObj (filter (\<lambda>x. grasp_id x = gid) ?goals))" .
    from Some cell1 cell2 show ?thesis
      using nearest_goal_cong [OF gd] dummy_goal_cong [OF mq]
      by (simp add: costToGo_grasp_def obj1 obj2)
  qed
  from c1 c3 c4 c6 c25 show ?thesis by blast
qed

theorem heuristic_unaffected_by_goal_ops_witness:
  "objects H_one 0 = Some (GoalSetObj gs_one 1)
   \<and> new_MGGoalDistance H_one 0 cSpaceDistance 1 = Inr (2, H_built)
   \<and> apply_goal_ops H_built 0 [AddGoal goal8, RemoveGoal 7] = Inr H_changed
   \<and> objects H_changed 0 = Some (GoalSetObj gs_eight 1)
   \<and> getGoals gs_one = [goal7] \<and> getGoals gs_eight = [goal8]
   \<and> costToGo H_changed 2 [1 / 4] = Inr (1 / 4)
   \<and> costToGo_grasp H_changed 2 [1 / 4] 1 = Inr (1 / 4)
   \<and> getGoalCost H_changed 2 0 = Inr (Some 1)
   \<and> (case new_MGGoalDistance H_changed 0 cSpaceDistance 1 of
        Inl e \<Rightarrow> Inl e | Inr (t, H) \<Rightarrow> costToGo H t [1 / 4]) = Inr 0"
proof -
  have gs: "objects H_one 0 = Some (GoalSetObj gs_one 1)"
    by (simp add: H_one_def)
  have g1: "getGoals gs_one = [goal7]" and g8: "getGoals gs_eight = [goal8]"
    by (simp_all add: getGoals_def gs_one_def gs_eight_def)
  have i1: "init_MGGoalDistance [goal7] cSpaceDistance 1 =
      \<lparr> all_goals = [], goals_of_grasp = [], quality_normalizer = 1,
        goal_distance = \<lparr> scaled_lambda = 1, path_cost_fn = cSpaceDistance \<rparr>,
        max_quality = Some 1 \<rparr>"
    by (simp add: init_MGGoalDistance_def fold_quality_def goal7_def Let_def)
  have f7: "grasp_id goal7 = 1" and f8: "grasp_id goal8 = 1" "goal_config goal8 = [1 / 4]"
    "quality goal8 = 3" "goal_ident goal8 = 8"
    by (simp_all add: goal7_def goal8_def)
  have new: "new_MGGoalDistance H_one 0 cSpaceDistance 1 = Inr (2, H_built)"
    by (simp add: new_MGGoalDistance_def H_one_def g1 i1 Let_def map_insert_def
        H_built_def h_one_def f7 fun_upd_twist)
  have add: "addGoal (gs_one, rm_one) goal8 =
       Inr (\<lparr> gs_goals = [(7, goal7), (8, goal8)], gs_goal_id_to_roadmap_id = [7 \<mapsto> 0, 8 \<mapsto> 1],
              gs_roadmap_id_to_goal_id = [0 \<mapsto> 7, 1 \<mapsto> 8] \<rparr>,
            snd (addNode rm_one (goal_config goal8)))"
    by (simp add: addGoal_result gs_one_def rm_one_def rm_empty_def goal8_def map_insert_def)
  let ?gs2 = "\<lparr> gs_goals = [(7, goal7), (8, goal8)],
      gs_goal_id_to_roadmap_id = [7 \<mapsto> 0, 8 \<mapsto> 1],
      gs_roadmap_id_to_goal_id = [0 \<mapsto> 7, 1 \<mapsto> 8] \<rparr>"
  let ?Hm = "H_built\<lparr> objects := (objects H_built)
       (1 \<mapsto> RoadmapObj (snd (addNode rm_one [1 / 4])), 0 \<mapsto> GoalSetObj ?gs2 1) \<rparr>"
  have s1: "heap_addGoal H_built 0 goal8 = Inr ?Hm"
    by (simp add: heap_addGoal_def H_built_def add f8)
  have m1: "[7 \<mapsto> 0, 8 \<mapsto> 1](7 := None) = [8::uint \<mapsto> 1::uint]"
    and m2: "[0 \<mapsto> 7, 1 \<mapsto> 8](0 := None) = [1::uint \<mapsto> 8::uint]"
    by (auto intro!: ext)
  have rem: "removeGoal ?gs2 7 = Inr gs_eight"
    by (simp add: removeGoal_def map_erase_def gs_eight_def m1 m2)
  have s2: "heap_removeGoal ?Hm 0 7 = Inr H_changed"
    by (simp add: heap_removeGoal_def rem) (simp add: H_changed_def H_built_def)
  have ops: "apply_goal_ops H_built 0 [AddGoal goal8, RemoveGoal 7] = Inr H_changed"
    by (simp only: apply_goal_ops.simps apply_goal_op_def goal_op.case s1 s2 sum.case)
  have changed: "objects H_changed 0 = Some (GoalSetObj gs_eight 1)"
    by (simp add: H_changed_def)
  have v1: "costToGo H_built 2 [1 / 4] = Inr (1 / 4)"
    by (simp add: costToGo_def H_built_def h_one_def nearest_goal_def dummy_goal_def
        distance_const_def goal7_def cSpaceDistance_def vsub_def vnorm_single Let_def)
  have v2: "costToGo_grasp H_built 2 [1 / 4] 1 = Inr (1 / 4)"
    by (simp add: costToGo_grasp_def H_built_def h_one_def nearest_goal_def dummy_goal_def
        distance_const_def goal7_def cSpaceDistance_def vsub_def vnorm_single Let_def)
  have v3: "getGoalCost H_built 2 0 = Inr (Some 1)"
    by (simp add: getGoalCost_def H_built_def h_one_def)
  have i8: "init_MGGoalDistance [goal8] cSpaceDistance 1 =
      \<lparr> all_goals = [], goals_of_grasp = [], quality_normalizer = 1,
        goal_distance = \<lparr> scaled_lambda = 1, path_cost_fn = cSpaceDistance \<rparr>,
        max_quality = Some 3 \<rparr>"
    by (simp add: init_MGGoalDistance_def fold_quality_def goal8_def Let_def)
  have rebuilt: "(case new_MGGoalDistance H_changed 0 cSpaceDistance 1 of
        Inl e \<Rightarrow> Inl e | Inr (t, H) \<Rightarrow> costToGo H t [1 / 4]) = Inr 0"
    by (simp add: new_MGGoalDistance_def H_changed_def H_built_def g8 i8 Let_def map_insert_def
        f8 costToGo_def nearest_goal_def dummy_goal_def distance_const_def
        cSpaceDistance_def vsub_def vnorm_single)
  from heuristic_unaffected_by_goal_ops [OF gs new ops, of "[1 / 4]" 1 0] v1 v2 v3
  have "costToGo H_changed 2 [1 / 4] = Inr (1 / 4)
      \<and> costToGo_grasp H_changed 2 [1 / 4] 1 = Inr (1 / 4)
      \<and> getGoalCost H_changed 2 0 = Inr (Some 1)"
    by simp
  with gs new ops changed g1 g8 rebuilt show ?thesis by simp
qed

section \<open>Facts about the search\<close>

lemma update_membership_frame:
  assumes "update_membership G st v = Inr st1"
  shows "vd_g (vdata G st1 v) = vd_g (vdata G st v)
       \<and> vd_rhs (vdata G st1 v) = vd_rhs (vdata G st v)
       \<and> vd_v (vdata G st1 v) = vd_v (vdata G st v)
       \<and> lpa_goal_key st1 = lpa_goal_key st
       \<and> lpa_result st1 = lpa_result st"
  using assms
  by (auto simp: update_membership_def Let_def pq_push_def set_vdata_def vdata_def
      split: if_splits sum.splits)

text \<open>
  Claim C3, as stated: the candidate goal key is \<open>(g(v) + goal_cost(v), g(v))\<close>. It fails:
  the candidate is built by \<open>computeKey\<close>, from the smaller of \<open>g\<close> and \<open>rhs\<close>. In
  \<open>st_relaxed\<close> the goal has infinite \<open>g\<close>, \<open>rhs = 5\<close> and goal cost 1; the key of the
  claim is \<open>(+infinity, +infinity)\<close>, which is not below the recorded key, yet the key
  update records the goal under the key \<open>(6, 5)\<close>, with \<open>solved = false\<close>.
\<close>

theorem goal_key_not_from_g:
  "vd_g (vdata G_line st_relaxed 1) = PInf
   \<and> vd_rhs (vdata G_line st_relaxed 1) = Fin 5
   \<and> getGoalCostVertex G_line 1 = Fin 1
   \<and> lpa_goal_key st_relaxed = (PInf, PInf)
   \<and> \<not> key_less (xadd (vd_g (vdata G_line st_relaxed 1)) (getGoalCostVertex G_line 1),
                    vd_g (vdata G_line st_relaxed 1)) (lpa_goal_key st_relaxed)
   \<and> map_sum id lpa_goal_key (updateVertexKey G_line st_relaxed 1) = Inr (Fin 6, Fin 5)
   \<and> map_sum id (goal_node \<circ> lpa_result) (updateVertexKey G_line st_relaxed 1) = Inr 1
   \<and> map_sum id (solved \<circ> lpa_result) (updateVertexKey G_line st_relaxed 1) = Inr False"
  by (simp add: st_relaxed_def new_LPAStarAlgorithm_def G_line_def set_vdata_def vdata_def
      new_VertexData_def computeKey_def xmin_def key_less_def pq_push_def Let_def
      updateVertexKey_def update_membership_def update_goal_def)

text \<open>
  Claim C3, amended: a key update on a goal vertex \<open>v\<close> compares the candidate
  \<open>(min(g(v), rhs(v)) + goal_cost(v), min(g(v), rhs(v)))\<close> against the best-known goal key;
  when the candidate is smaller it becomes the goal key and the result records
  \<open>goal_node = v\<close>, \<open>goal_cost = goal_cost(v)\<close>, \<open>path_cost = g(v)\<close> and
  \<open>solved = (g(v) == rhs(v))\<close>; otherwise key and result stay as they are.
\<close>

theorem updateVertexKey_goal_tracking:
  assumes "updateVertexKey G st v = Inr st'"
      and "isGoalVertex G (vd_v (vdata G st v))"
  shows "lpa_goal_key st' =
           (if key_less (xadd (xmin (vd_g (vdata G st v)) (vd_rhs (vdata G st v)))
                           (getGoalCostVertex G (vd_v (vdata G st v))),
                         xmin (vd_g (vdata G st v)) (vd_rhs (vdata G st v))) (lpa_goal_key st)
            then (xadd (xmin (vd_g (vdata G st v)) (vd_rhs (vdata G st v)))
                    (getGoalCostVertex G (vd_v (vdata G st v))),
                  xmin (vd_g (vdata G st v)) (vd_rhs (vdata G st v)))
            else lpa_goal_key st)
       \<and> lpa_result st' =
           (if key_less (xadd (xmin (vd_g (vdata G st v)) (vd_rhs (vdata G st v)))
                           (getGoalCostVertex G (vd_v (vdata G st v))),
                         xmin (vd_g (vdata G st v)) (vd_rhs (vdata G st v))) (lpa_goal_key st)
            then (lpa_result st)
                   \<lparr> goal_node := vd_v (vdata G st v),
                     goal_cost := getGoalCostVertex G (vd_v (vdata G st v)),
                     path_cost := vd_g (vdata G st v),
                     solved := (vd_g (vdata G st v) = vd_rhs (vdata G st v)) \<rparr>
            else lpa_result st)"
proof -
  from assms(1) obtain st1 where m: "update_membership G st v = Inr st1"
    and s: "st' = update_goal G st1 v"
    by (auto simp: updateVertexKey_def split: sum.splits)
  note f = update_membership_frame [OF m]
  from assms(2) f show ?thesis
    by (simp add: s update_goal_def Let_def computeKey_def)
qed

theorem updateVertexKey_goal_tracking_witness:
  "updateVertexKey G_line st_relaxed 1
     = Inr (st_relaxed
         \<lparr> lpa_pq := [(0, \<lparr> el_v = 0, el_key = (Fin 0, Fin 0) \<rparr>),
                      (1, \<lparr> el_v = 1, el_key = (Fin 5, Fin 5) \<rparr>)],
           lpa_next_handle := 2,
           lpa_vertex_data := (lpa_vertex_data st_relaxed)
             (1 \<mapsto> (new_VertexData 1 PInf (Fin 0) (Fin 5) 0)
                     \<lparr> vd_in_pq := True, vd_pq_handle := Some 1 \<rparr>),
           lpa_result := \<lparr> solved = False, path = [], path_cost = PInf, goal_cost = Fin 1,
                           goal_node = 1 \<rparr>,
           lpa_goal_key := (Fin 6, Fin 5) \<rparr>)
   \<and> isGoalVertex G_line (vd_v (vdata G_line st_relaxed 1))
   \<and> xmin (vd_g (vdata G_line st_relaxed 1)) (vd_rhs (vdata G_line st_relaxed 1)) = Fin 5
   \<and> key_less (Fin 6, Fin 5) (lpa_goal_key st_relaxed)"
proof -
  let ?st' = "st_relaxed
         \<lparr> lpa_pq := [(0, \<lparr> el_v = 0, el_key = (Fin 0, Fin 0) \<rparr>),
                      (1, \<lparr> el_v = 1, el_key = (Fin 5, Fin 5) \<rparr>)],
           lpa_next_handle := 2,
           lpa_vertex_data := (lpa_vertex_data st_relaxed)
             (1 \<mapsto> (new_VertexData 1 PInf (Fin 0) (Fin 5) 0)
                     \<lparr> vd_in_pq := True, vd_pq_handle := Some 1 \<rparr>),
           lpa_result := \<lparr> solved = False, path = [], path_cost = PInf, goal_cost = Fin 1,
                           goal_node = 1 \<rparr>,
           lpa_goal_key := (Fin 6, Fin 5) \<rparr>"
  have run: "updateVertexKey G_line st_relaxed 1 = Inr ?st'"
    by (simp add: st_relaxed_def new_LPAStarAlgorithm_def G_line_def set_vdata_def vdata_def
        new_VertexData_def computeKey_def xmin_def key_less_def pq_push_def Let_def
        updateVertexKey_def update_membership_def update_goal_def)
  have g: "isGoalVertex G_line (vd_v (vdata G_line st_relaxed 1))"
    by (simp add: st_relaxed_def G_line_def set_vdata_def vdata_def new_VertexData_def)
  have m: "xmin (vd_g (vdata G_line st_relaxed 1)) (vd_rhs (vdata G_line st_relaxed 1)) = Fin 5"
    by (simp add: st_relaxed_def set_vdata_def vdata_def new_VertexData_def xmin_def)
  have k: "key_less (Fin 6, Fin 5) (lpa_goal_key st_relaxed)"
    by (simp add: st_relaxed_def new_LPAStarAlgorithm_def G_line_def set_vdata_def
        computeKey_def xmin_def key_less_def pq_push_def Let_def)
  from updateVertexKey_goal_tracking [OF run g] run g m k
  show ?thesis by simp
qed

lemma vdata_getVertexData: "vdata G (getVertexData G st v) w = vdata G st w"
  by (simp add: vdata_def getVertexData_def)

lemma handleCostIncrease_other_parent:
  "vd_p (vdata G st v) \<noteq> vd_v (vdata G st u) \<Longrightarrow> handleCostIncrease G st u v = Inr st"
  by (simp add: handleCostIncrease_def)

text \<open>
  The loop over the successors of an underconsistent vertex never ends once it is entered
  at a successor whose parent is not \<open>u\<close>: the position stays where it is, the end of the
  range moves away from it, and the body changes nothing but the materialization of the
  successor's vertex data.
\<close>

lemma increase_loop_diverges:
  "iter < end_iter \<Longrightarrow> iter < length succs
   \<Longrightarrow> vd_p (vdata G st (succs ! iter)) \<noteq> vd_v (vdata G st u)
   \<Longrightarrow> increase_loop n G u succs iter end_iter st = None"
proof (induction n arbitrary: end_iter st)
  case 0
  show ?case by simp
next
  case (Suc n)
  let ?v = "succs ! iter"
  let ?st1 = "getVertexData G st ?v"
  from Suc.prems(3)
  have p: "vd_p (vdata G ?st1 ?v) \<noteq> vd_v (vdata G ?st1 u)"
    by (simp add: vdata_getVertexData)
  then have h: "handleCostIncrease G ?st1 u ?v = Inr ?st1"
    by (rule handleCostIncrease_other_parent)
  from Suc.prems(1) have "iter < Suc end_iter" by simp
  from Suc.IH [OF this Suc.prems(2) p]
  have "increase_loop n G u succs iter (Suc end_iter) ?st1 = None" .
  with Suc.prems(1,2) h show ?case by simp
qed

text \<open>
  So the main loop never gets past its first iteration when the start is valid and the
  first of its successors is another vertex: the start is created with \<open>g = rhs = 0\<close> and
  is popped as not overconsistent.
\<close>

lemma main_loop_diverges_at_start:
  assumes v: "checkValidity G (getStartNode G)"
      and s: "getSuccessors G (getStartNode G) lazy = s # ss"
      and n: "s \<noteq> getStartNode G"
  shows "main_loop fuel G (new_LPAStarAlgorithm G lazy junk) = None"
proof (cases fuel)
  case 0
  then show ?thesis by simp
next
  case (Suc k)
  show ?thesis
    unfolding Suc using v s n
    by (simp add: new_LPAStarAlgorithm_def pq_push_def pq_top_def pq_pop_def
        computeKey_def xmin_def key_less_def Let_def getVertexData_def vdata_def set_vdata_def
        new_VertexData_def increase_loop_diverges)
qed

text \<open>
  Claim C2. \<open>computeShortestPath\<close> is claimed to terminate on every finite graph, visiting
  each successor of an underconsistent vertex once. The loop over those successors is
  \<^verbatim>\<open>for (; iter != end_iter; ++end_iter)\<close>, and the start vertex, created with
  \<open>g = rhs = 0\<close>, takes that branch at the first pop. On \<open>G_line\<close>, whose start has one
  successor, no amount of fuel lets the search return.
\<close>

theorem computeShortestPath_never_returns:
  "computeShortestPath fuel G_line (new_LPAStarAlgorithm G_line lazy junk) = None"
proof (cases fuel)
  case 0
  then show ?thesis by (simp add: computeShortestPath_def)
next
  case (Suc n)
  have "main_loop (Suc n) G_line (new_LPAStarAlgorithm G_line lazy junk) = None"
    by (simp add: new_LPAStarAlgorithm_def G_line_def pq_push_def pq_top_def pq_pop_def
        computeKey_def xmin_def key_less_def Let_def getVertexData_def vdata_def set_vdata_def
        new_VertexData_def increase_loop_diverges)
  with Suc show ?thesis by (simp add: computeShortestPath_def)
qed

text \<open>
  With an invalid start the constructor leaves the queue empty and the result as the
  memory held it, and the first evaluation of the loop condition takes the top of the
  empty heap.
\<close>

lemma invalid_start_state:
  assumes "\<not> checkValidity G (getStartNode G)"
  shows "lpa_pq (new_LPAStarAlgorithm G lazy junk) = []
       \<and> lpa_result (new_LPAStarAlgorithm G lazy junk) = junk\<lparr> path := [] \<rparr>
       \<and> computeShortestPath (Suc k) G (new_LPAStarAlgorithm G lazy junk) = Some (Inl EmptyHeap)"
  using assms
  by (simp add: new_LPAStarAlgorithm_def computeShortestPath_def pq_top_def Let_def)

text \<open>
  Claim C4. With an invalid start the constructor skips its whole initialization, that of
  \<open>_result\<close> included, so \<open>solved\<close> is whatever the memory held; and the loop condition of
  \<open>computeShortestPath\<close> reads \<open>_pq.top()\<close> before it tests \<open>_pq.empty()\<close>, on a heap that
  is empty. No result with \<open>solved = false\<close> is returned.
\<close>

theorem invalid_start_no_result:
  "\<not> checkValidity G_invalid (getStartNode G_invalid)
   \<and> lpa_pq (new_LPAStarAlgorithm G_invalid False junk_solved) = []
   \<and> lpa_result (new_LPAStarAlgorithm G_invalid False junk_solved) = junk_solved
   \<and> solved (lpa_result (new_LPAStarAlgorithm G_invalid False junk_solved))
   \<and> computeShortestPath 1 G_invalid (new_LPAStarAlgorithm G_invalid False junk_solved)
       = Some (Inl EmptyHeap)"
  by (simp add: new_LPAStarAlgorithm_def G_invalid_def G_line_def junk_solved_def
      computeShortestPath_def pq_top_def Let_def)

end
